theory Spec2Isabelle
  imports Main
begin

section \<open>Data model\<close>

text \<open>
  The chat front end exists twice in the repository: as the page
  \<^verbatim>\<open>frontend/pages/chat.tsx\<close> (component \<open>Chat\<close>, which also owns the upload
  flow) and as the components \<^verbatim>\<open>frontend/components/ChatWindow.tsx\<close> and
  \<^verbatim>\<open>frontend/components/DocumentUploader.tsx\<close>. Both are embedded here.

  A JavaScript string is a sequence of UTF-16 code units, here numbers. The texts that
  the source writes as literals are ASCII; \<open>js\<close> turns such a literal into its code
  units.
\<close>

type_synonym code_unit = nat

type_synonym jstring = "code_unit list"

definition js :: "string \<Rightarrow> jstring" where
  "js t = map of_char t"

text \<open>
  \<^verbatim>\<open>String.prototype.trim\<close> removes, at both ends, the white space and the line
  terminators of ECMAScript: tab U+0009, vertical tab U+000B, form feed U+000C, the
  space separators of Unicode (U+0020, U+00A0, U+1680, U+2000 to U+200A, U+202F,
  U+205F, U+3000), the byte order mark U+FEFF, and line feed U+000A, carriage return
  U+000D, line separator U+2028, paragraph separator U+2029. Each is one code unit.
\<close>

definition is_space :: "code_unit \<Rightarrow> bool" where
  "is_space c =
     (c \<in> set [0x0009, 0x000A, 0x000B, 0x000C, 0x000D, 0x0020, 0x00A0, 0x1680,
                0x2028, 0x2029, 0x202F, 0x205F, 0x3000, 0xFEFF] \<or>
      (0x2000 \<le> c \<and> c \<le> 0x200A))"

definition trim :: "jstring \<Rightarrow> jstring" where
  "trim t = rev (dropWhile is_space (rev (dropWhile is_space t)))"

text \<open>
  A message is the source's \<^verbatim>\<open>type Message = { sender; content; isLoading? }\<close>;
  the optional field is an \<open>option\<close>, \<open>None\<close> standing for an absent (undefined)
  \<open>isLoading\<close>.
\<close>

datatype role = User | Assistant

record Message =
  sender :: role
  content :: jstring
  isLoading :: "bool option"

text \<open>
  A message is pending when its \<open>isLoading\<close> field is present and true.
\<close>

definition pending :: "Message \<Rightarrow> bool" where
  "pending m = (isLoading m = Some True)"

text \<open>
  The transcript is a JavaScript array. A write \<^verbatim>\<open>a[i] = v\<close> inside the array
  overwrites slot \<open>i\<close>; a write at or beyond \<open>a.length\<close> extends the array, leaving
  empty slots in between. A slot is therefore a \<open>Message option\<close>, \<open>None\<close> being
  an empty slot. The spread \<^verbatim>\<open>[...prev, m]\<close> is \<open>prev @ [Some m]\<close>.
\<close>

type_synonym transcript = "Message option list"

definition array_set :: "transcript \<Rightarrow> nat \<Rightarrow> Message \<Rightarrow> transcript" where
  "array_set a i v =
     (if i < length a then a[i := Some v]
      else a @ replicate (i - length a) None @ [Some v])"

subsection \<open>Requests, replies and the segments of an async function\<close>

text \<open>
  The body that \<open>sendMessage\<close> passes to the chat endpoint.
\<close>

record chat_request =
  question :: jstring
  session_id :: jstring
  req_personality :: jstring
  research :: bool

text \<open>
  What comes back from \<^verbatim>\<open>fetch\<close> and from reading the body. \<open>Rejected\<close> is a
  \<open>fetch\<close> whose promise rejects (network error). Otherwise there is a response with
  a status, its body as text, and what \<^verbatim>\<open>response.json()\<close> makes of it:
  \<open>None\<close> when parsing throws (or when the parsed value is \<open>null\<close> and the
  handler's first field access throws), else the fields the handler reads.
  \<^verbatim>\<open>response.ok\<close> is true for the statuses 200 to 299.
\<close>

datatype 'd reply =
  Rejected
  | Response (status: nat) (body_text: jstring) (body_json: "'d option")

definition response_ok :: "nat \<Rightarrow> bool" where
  "response_ok st = (200 \<le> st \<and> st \<le> 299)"

text \<open>
  A reply counts as a failure when the fetch rejects, when the status is not a
  success, or when the body does not parse.
\<close>

definition failed :: "'d reply \<Rightarrow> bool" where
  "failed r =
     (case r of
        Rejected \<Rightarrow> True
      | Response st txt parsed \<Rightarrow> \<not> response_ok st \<or> parsed = None)"

text \<open>
  The chat endpoint's body: \<open>answer\<close> and \<open>tools_used\<close> are optional, \<open>None\<close>
  for a missing or null field. The upload endpoint's body is the interface
  \<open>UploadResult\<close> of DocumentUploader.tsx; chat.tsx reads \<open>summary\<close> with a
  default, so it may be missing.
\<close>

datatype chat_data =
  ChatData (answer: "jstring option") (tools_used: "jstring list option")

datatype UploadResult =
  UploadResult (res_session_id: jstring) (res_summary: "jstring option") (document: jstring)

text \<open>
  What a \<^verbatim>\<open>try\<close> block throws. The values are only logged by the handlers.
\<close>

datatype thrown =
  FetchError
  | HttpError nat jstring
  | JsonError

text \<open>
  An async function runs in segments. A segment ends either by returning, or at an
  \<^verbatim>\<open>await fetch(...)\<close>: then the request \<open>'q\<close> has been sent, and the local
  variables that the rest of the function reads are kept in a continuation \<open>'k\<close>.
  The state is the component's state as left by the segment. Reading the body
  (\<^verbatim>\<open>await response.text()\<close>, \<^verbatim>\<open>await response.json()\<close>) is taken together
  with the fetch: the second segment starts with the whole reply.
\<close>

datatype ('q, 'k, 's) outcome =
  Returned 's
  | Awaiting 'q 'k 's

fun state_of :: "('q, 'k, 's) outcome \<Rightarrow> 's" where
  "state_of (Returned s) = s"
| "state_of (Awaiting q k s) = s"

text \<open>
  The locals of \<open>sendMessage\<close> that live across the \<open>await\<close>.
\<close>

record send_locals =
  useResearch :: bool
  placeholderIndex :: "nat option"

subsection \<open>Messages the handlers build\<close>

definition guidance_msg :: Message where
  "guidance_msg = \<lparr>sender = Assistant, content = js ''Please upload a document first.'',
     isLoading = None\<rparr>"

definition user_msg :: "jstring \<Rightarrow> Message" where
  "user_msg t = \<lparr>sender = User, content = t, isLoading = None\<rparr>"

definition placeholder_msg :: Message where
  "placeholder_msg = \<lparr>sender = Assistant, content = js ''Conducting deep research...'',
     isLoading = Some True\<rparr>"

definition assistant_msg :: "jstring \<Rightarrow> Message" where
  "assistant_msg t = \<lparr>sender = Assistant, content = t, isLoading = None\<rparr>"

definition no_answer :: jstring where
  "no_answer = js ''*(No answer)*''"

definition errMsg :: jstring where
  "errMsg = js ''Error: Failed to get answer.''"

definition upload_errMsg :: jstring where
  "upload_errMsg = js ''Error: Failed to summarize document.''"

text \<open>
  \<^verbatim>\<open>data.answer || "*(No answer)*"\<close>: a missing, null or empty answer is falsy.
\<close>

definition answer_or_default :: "jstring option \<Rightarrow> jstring" where
  "answer_or_default a =
     (case a of None \<Rightarrow> no_answer | Some t \<Rightarrow> if t = [] then no_answer else t)"

text \<open>
  Both \<open>sendMessage\<close>s write the answer, or the error text, in the same way:
  \<^verbatim>\<open>if (useResearch && placeholderIndex !== null)\<close> the slot \<open>placeholderIndex\<close>
  of a copy of the array is assigned, else the message is appended. The message
  written has no \<open>isLoading\<close> field.
\<close>

definition reconcile :: "send_locals \<Rightarrow> jstring \<Rightarrow> transcript \<Rightarrow> transcript" where
  "reconcile k t prev =
     (case (useResearch k, placeholderIndex k) of
        (True, Some i) \<Rightarrow> array_set prev i (assistant_msg t)
      | _ \<Rightarrow> prev @ [Some (assistant_msg t)])"

section \<open>The page \<open>chat.tsx\<close>\<close>

text \<open>
  The state of \<open>Chat\<close> is its \<open>useState\<close> cells. A \<open>File\<close> is represented by
  its name; the cell \<open>file\<close> is called \<open>file'\<close>, \<open>file\<close> being reserved.
\<close>

record Chat_state =
  personality :: jstring
  sessionId :: "jstring option"
  summary :: jstring
  messages :: transcript
  input :: jstring
  isTyping :: bool
  uploading :: bool
  file' :: "jstring option"

definition Chat_init :: Chat_state where
  "Chat_init = \<lparr>personality = js ''factual'', sessionId = None, summary = [],
     messages = [], input = [], isTyping = False, uploading = False, file' = None\<rparr>"

subsection \<open>\<open>handleUpload\<close>\<close>

text \<open>
  Lines 49 to 82. The first segment ends at \<^verbatim>\<open>await fetch(".../upload")\<close>; the
  request is the file. In the \<open>try\<close> block every throw precedes the two state
  updates, so the \<open>catch\<close> block starts from the state the \<open>try\<close> block started from.
\<close>

definition handleUpload :: "Chat_state \<Rightarrow> (jstring, unit, Chat_state) outcome" where
  "handleUpload s =
     (case file' s of
        None \<Rightarrow> Returned s
      | Some f \<Rightarrow> Awaiting f () (s\<lparr>uploading := True\<rparr>))"

definition handleUpload_try :: "UploadResult reply \<Rightarrow> Chat_state \<Rightarrow> thrown + Chat_state" where
  "handleUpload_try r s =
     (case r of
        Rejected \<Rightarrow> Inl FetchError
      | Response st txt parsed \<Rightarrow>
          (if \<not> response_ok st then Inl (HttpError st txt)
           else (case parsed of
              None \<Rightarrow> Inl JsonError
            | Some d \<Rightarrow>
                Inr (s\<lparr>sessionId := Some (res_session_id d),
                       summary := (case res_summary d of None \<Rightarrow> [] | Some t \<Rightarrow> t)\<rparr>))))"

definition handleUpload_catch :: "Chat_state \<Rightarrow> Chat_state" where
  "handleUpload_catch s =
     s\<lparr>messages := messages s @ [Some (assistant_msg upload_errMsg)]\<rparr>"

definition handleUpload_resume ::
  "UploadResult reply \<Rightarrow> Chat_state \<Rightarrow> (jstring, unit, Chat_state) outcome" where
  "handleUpload_resume r s =
     (let s' = (case handleUpload_try r s of
                  Inl e \<Rightarrow> handleUpload_catch s
                | Inr s1 \<Rightarrow> s1)
      in Returned (s'\<lparr>uploading := False\<rparr>))"

subsection \<open>\<open>sendMessage\<close>\<close>

text \<open>
  \<open>sendMessage\<close> up to \<^verbatim>\<open>await fetch\<close> (lines 85 to 128). A handler reads the
  state of the render it belongs to, and React renders again after every event, so the
  \<open>messages\<close>, \<open>input\<close>, \<open>isTyping\<close> and \<open>sessionId\<close> it reads are those of the
  state \<open>s\<close> it is called in. \<^verbatim>\<open>!sessionId\<close> holds for \<open>null\<close> and for the
  empty string. \<open>placeholderIndex\<close> is computed from \<open>messages.length\<close> of that
  render, before the two appends.
\<close>

definition sendMessage ::
  "bool \<Rightarrow> Chat_state \<Rightarrow> (chat_request, send_locals, Chat_state) outcome" where
  "sendMessage useR s =
     (if trim (input s) = [] \<or> isTyping s then Returned s
      else (case sessionId s of
        None \<Rightarrow> Returned (s\<lparr>messages := messages s @ [Some guidance_msg]\<rparr>)
      | Some sid \<Rightarrow>
          (if sid = [] then Returned (s\<lparr>messages := messages s @ [Some guidance_msg]\<rparr>)
           else
            (let userMsg = trim (input s);
                s1 = s\<lparr>input := []\<rparr>;
                s2 = s1\<lparr>messages := messages s1 @ [Some (user_msg userMsg)]\<rparr>;
                s3 = s2\<lparr>isTyping := True\<rparr>;
                idx = (if useR then Some (length (messages s) + 1) else None);
                s4 = (if useR then s3\<lparr>messages := messages s3 @ [Some placeholder_msg]\<rparr>
                      else s3)
             in Awaiting
                 \<lparr>question = userMsg, session_id = sid,
                  req_personality = personality s, research = useR\<rparr>
                 \<lparr>useResearch = useR, placeholderIndex = idx\<rparr>
                 s4))))"

text \<open>
  The \<^verbatim>\<open>try\<close> block after the \<open>await\<close> (lines 129 to 147), the
  \<^verbatim>\<open>catch\<close> block (lines 148 to 162) and \<^verbatim>\<open>finally\<close> (lines 163 to 165).
  Every throw of the \<open>try\<close> block happens before its state update. \<open>tools_used\<close>
  is not read on this page.
\<close>

definition sendMessage_try ::
  "send_locals \<Rightarrow> chat_data reply \<Rightarrow> Chat_state \<Rightarrow> thrown + Chat_state" where
  "sendMessage_try k r s =
     (case r of
        Rejected \<Rightarrow> Inl FetchError
      | Response st txt parsed \<Rightarrow>
          (if \<not> response_ok st then Inl (HttpError st txt)
           else (case parsed of
              None \<Rightarrow> Inl JsonError
            | Some d \<Rightarrow>
                Inr (s\<lparr>messages := reconcile k (answer_or_default (answer d)) (messages s)\<rparr>))))"

definition sendMessage_catch :: "send_locals \<Rightarrow> Chat_state \<Rightarrow> Chat_state" where
  "sendMessage_catch k s = s\<lparr>messages := reconcile k errMsg (messages s)\<rparr>"

definition sendMessage_resume ::
  "send_locals \<Rightarrow> chat_data reply \<Rightarrow> Chat_state
     \<Rightarrow> (chat_request, send_locals, Chat_state) outcome" where
  "sendMessage_resume k r s =
     (let s' = (case sendMessage_try k r s of
                  Inl e \<Rightarrow> sendMessage_catch k s
                | Inr s1 \<Rightarrow> s1)
      in Returned (s'\<lparr>isTyping := False\<rparr>))"

section \<open>The component \<open>ChatWindow.tsx\<close>\<close>

text \<open>
  The props, and the \<open>useState\<close> cells. Names that the page already uses carry a
  prefix here: \<open>p_\<close> for props, \<open>w_\<close> for state.
\<close>

record ChatWindowProps =
  p_sessionId :: jstring
  p_personality :: jstring
  p_summary :: jstring

record ChatWindow_state =
  w_messages :: transcript
  w_input :: jstring
  w_isLoading :: bool
  toolUsed :: "jstring option"

definition ChatWindow_init :: ChatWindow_state where
  "ChatWindow_init = \<lparr>w_messages = [], w_input = [], w_isLoading = False, toolUsed = None\<rparr>"

definition tool_banner :: jstring where
  "tool_banner = js ''Invoking research tool...''"

text \<open>
  \<open>sendMessage\<close> of ChatWindow up to \<^verbatim>\<open>await fetch\<close> (lines 28 to 52). There is
  no check of the session here: \<open>sessionId\<close> is a prop of type \<open>string\<close>.
\<close>

definition ChatWindow_sendMessage ::
  "ChatWindowProps \<Rightarrow> bool \<Rightarrow> ChatWindow_state
     \<Rightarrow> (chat_request, send_locals, ChatWindow_state) outcome" where
  "ChatWindow_sendMessage props useR s =
     (if trim (w_input s) = [] \<or> w_isLoading s then Returned s
      else
        (let q = trim (w_input s);
             s1 = s\<lparr>w_input := []\<rparr>;
             s2 = s1\<lparr>w_messages := w_messages s1 @ [Some (user_msg q)]\<rparr>;
             s3 = s2\<lparr>w_isLoading := True\<rparr>;
             idx = (if useR then Some (length (w_messages s) + 1) else None);
             s4 = (if useR then s3\<lparr>w_messages := w_messages s3 @ [Some placeholder_msg]\<rparr>
                   else s3)
         in Awaiting
              \<lparr>question = q, session_id = p_sessionId props,
               req_personality = p_personality props, research = useR\<rparr>
              \<lparr>useResearch = useR, placeholderIndex = idx\<rparr>
              s4))"

text \<open>
  The \<open>try\<close> block (lines 53 to 70): after the answer is written,
  \<^verbatim>\<open>if (data.tools_used && data.tools_used.includes("Bing Search"))\<close> sets the
  banner text. \<open>tools_used\<close> is a list of tool names, so \<open>includes\<close> is membership.
  Then the \<open>catch\<close> block (lines 71 to 85) and \<open>finally\<close> (lines 86 to 88).
\<close>

definition ChatWindow_sendMessage_try ::
  "send_locals \<Rightarrow> chat_data reply \<Rightarrow> ChatWindow_state \<Rightarrow> thrown + ChatWindow_state" where
  "ChatWindow_sendMessage_try k r s =
     (case r of
        Rejected \<Rightarrow> Inl FetchError
      | Response st txt parsed \<Rightarrow>
          (if \<not> response_ok st then Inl (HttpError st txt)
           else (case parsed of
              None \<Rightarrow> Inl JsonError
            | Some d \<Rightarrow>
                (let s1 = s\<lparr>w_messages :=
                              reconcile k (answer_or_default (answer d)) (w_messages s)\<rparr>
                 in Inr (case tools_used d of
                           None \<Rightarrow> s1
                         | Some tools \<Rightarrow>
                             if js ''Bing Search'' \<in> set tools
                             then s1\<lparr>toolUsed := Some tool_banner\<rparr> else s1)))))"

definition ChatWindow_sendMessage_catch ::
  "send_locals \<Rightarrow> ChatWindow_state \<Rightarrow> ChatWindow_state" where
  "ChatWindow_sendMessage_catch k s = s\<lparr>w_messages := reconcile k errMsg (w_messages s)\<rparr>"

definition ChatWindow_sendMessage_resume ::
  "send_locals \<Rightarrow> chat_data reply \<Rightarrow> ChatWindow_state
     \<Rightarrow> (chat_request, send_locals, ChatWindow_state) outcome" where
  "ChatWindow_sendMessage_resume k r s =
     (let s' = (case ChatWindow_sendMessage_try k r s of
                  Inl e \<Rightarrow> ChatWindow_sendMessage_catch k s
                | Inr s1 \<Rightarrow> s1)
      in Returned (s'\<lparr>w_isLoading := False\<rparr>))"

text \<open>
  The banner is rendered by \<^verbatim>\<open>{toolUsed && (<div>...{toolUsed}</div>)}\<close> (lines
  135 to 141): it shows when \<open>toolUsed\<close> is neither null nor empty.
\<close>

definition banner_shown :: "ChatWindow_state \<Rightarrow> jstring option" where
  "banner_shown s =
     (case toolUsed s of None \<Rightarrow> None | Some t \<Rightarrow> if t = [] then None else Some t)"

section \<open>The component \<open>DocumentUploader.tsx\<close>\<close>

text \<open>
  The component has two cells and one prop, the callback \<open>onUpload\<close>. Whatever state
  the parent keeps (the session, and a transcript if it has one) is a value of type
  \<open>'p\<close>, and \<open>onUpload\<close> is a function on it. The body of a successful reply is
  taken to be an \<open>UploadResult\<close>, as the interface says.
\<close>

record Uploader_state =
  u_file :: "jstring option"
  u_uploading :: bool

definition DocumentUploader_handleUpload ::
  "Uploader_state \<Rightarrow> (jstring, unit, Uploader_state) outcome" where
  "DocumentUploader_handleUpload u =
     (case u_file u of
        None \<Rightarrow> Returned u
      | Some f \<Rightarrow> Awaiting f () (u\<lparr>u_uploading := True\<rparr>))"

definition DocumentUploader_try ::
  "(UploadResult \<Rightarrow> 'p \<Rightarrow> 'p) \<Rightarrow> UploadResult reply \<Rightarrow> 'p \<Rightarrow> thrown + 'p" where
  "DocumentUploader_try onUpload r p =
     (case r of
        Rejected \<Rightarrow> Inl FetchError
      | Response st txt parsed \<Rightarrow>
          (if \<not> response_ok st then Inl (HttpError st [])
           else (case parsed of
              None \<Rightarrow> Inl JsonError
            | Some d \<Rightarrow> Inr (onUpload d p))))"

definition DocumentUploader_handleUpload_resume ::
  "(UploadResult \<Rightarrow> 'p \<Rightarrow> 'p) \<Rightarrow> UploadResult reply \<Rightarrow> Uploader_state \<times> 'p
     \<Rightarrow> (jstring, unit, Uploader_state \<times> 'p) outcome" where
  "DocumentUploader_handleUpload_resume onUpload r up =
     (let p' = (case DocumentUploader_try onUpload r (snd up) of
                  Inl e \<Rightarrow> snd up
                | Inr p1 \<Rightarrow> p1)
      in Returned ((fst up)\<lparr>u_uploading := False\<rparr>, p'))"

section \<open>Runs\<close>

subsection \<open>Runs of the page\<close>

text \<open>
  Everything happens in events: the user's actions, each running a handler's first
  segment to its end, and the arrival of a reply, running the second segment of the
  call that waits for it. Besides the component's cells the page's situation holds the
  calls in flight: the continuations of \<open>sendMessage\<close> and the number of
  \<open>handleUpload\<close> calls. Events are accepted in every state; the rendered page
  allows fewer (a disabled button, a hidden form), so every run of the page is a run
  here. \<open>ChatSettled n r\<close> delivers \<open>r\<close> to the \<open>n\<close>-th call in flight.
\<close>

record Chat_sys =
  ui :: Chat_state
  chat_inflight :: "send_locals list"
  uploads_inflight :: nat

datatype Chat_event =
  ChangeInput jstring
  | ChangePersonality jstring
  | ChangeFile "jstring list"
  | ClickUpload
  | UploadSettled "UploadResult reply"
  | Send bool
  | ChatSettled nat "chat_data reply"

definition Chat_sys_init :: Chat_sys where
  "Chat_sys_init = \<lparr>ui = Chat_init, chat_inflight = [], uploads_inflight = 0\<rparr>"

text \<open>
  \<open>handlePersonalityChange\<close> (lines 38 to 40) and \<open>handleFileChange\<close> (lines 43
  to 47), the latter on the list of files of the event.
\<close>

definition handlePersonalityChange :: "jstring \<Rightarrow> Chat_state \<Rightarrow> Chat_state" where
  "handlePersonalityChange v s = s\<lparr>personality := v\<rparr>"

definition handleFileChange :: "jstring list \<Rightarrow> Chat_state \<Rightarrow> Chat_state" where
  "handleFileChange fs s = (case fs of [] \<Rightarrow> s | f # _ \<Rightarrow> s\<lparr>file' := Some f\<rparr>)"

definition drop_nth :: "nat \<Rightarrow> 'a list \<Rightarrow> 'a list" where
  "drop_nth n xs = take n xs @ drop (Suc n) xs"

fun Chat_step :: "Chat_event \<Rightarrow> Chat_sys \<Rightarrow> Chat_sys" where
  "Chat_step (ChangeInput v) s = s\<lparr>ui := (ui s)\<lparr>input := v\<rparr>\<rparr>"
| "Chat_step (ChangePersonality v) s = s\<lparr>ui := handlePersonalityChange v (ui s)\<rparr>"
| "Chat_step (ChangeFile fs) s = s\<lparr>ui := handleFileChange fs (ui s)\<rparr>"
| "Chat_step ClickUpload s =
     (case handleUpload (ui s) of
        Returned u \<Rightarrow> s\<lparr>ui := u\<rparr>
      | Awaiting f k u \<Rightarrow> s\<lparr>ui := u, uploads_inflight := Suc (uploads_inflight s)\<rparr>)"
| "Chat_step (UploadSettled r) s =
     (if uploads_inflight s = 0 then s
      else (case handleUpload_resume r (ui s) of
        Returned u \<Rightarrow> s\<lparr>ui := u, uploads_inflight := uploads_inflight s - 1\<rparr>
      | Awaiting f k u \<Rightarrow> s\<lparr>ui := u\<rparr>))"
| "Chat_step (Send useR) s =
     (case sendMessage useR (ui s) of
        Returned u \<Rightarrow> s\<lparr>ui := u\<rparr>
      | Awaiting q k u \<Rightarrow> s\<lparr>ui := u, chat_inflight := chat_inflight s @ [k]\<rparr>)"
| "Chat_step (ChatSettled n r) s =
     (if n < length (chat_inflight s)
      then (case sendMessage_resume (chat_inflight s ! n) r (ui s) of
        Returned u \<Rightarrow> s\<lparr>ui := u, chat_inflight := drop_nth n (chat_inflight s)\<rparr>
      | Awaiting q k u \<Rightarrow>
          s\<lparr>ui := u, chat_inflight := drop_nth n (chat_inflight s) @ [k]\<rparr>)
      else s)"

definition Chat_run :: "Chat_event list \<Rightarrow> Chat_sys \<Rightarrow> Chat_sys" where
  "Chat_run es s = fold Chat_step es s"

text \<open>
  What holds of every situation the page can be in: the transcript has no empty slot;
  at most one \<open>sendMessage\<close> is in flight, and then \<open>isTyping\<close> is set; and if that
  call remembers a placeholder index, the index is inside the transcript and the slot
  holds the pending placeholder.
\<close>

definition locals_ok :: "transcript \<Rightarrow> send_locals \<Rightarrow> bool" where
  "locals_ok ms k =
     (case (useResearch k, placeholderIndex k) of
        (True, Some i) \<Rightarrow> i < length ms \<and> ms ! i = Some placeholder_msg
      | _ \<Rightarrow> True)"

definition Chat_inv :: "Chat_sys \<Rightarrow> bool" where
  "Chat_inv s =
     (None \<notin> set (messages (ui s)) \<and>
      (case chat_inflight s of
         [] \<Rightarrow> True
       | [k] \<Rightarrow> isTyping (ui s) \<and> locals_ok (messages (ui s)) k
       | _ \<Rightarrow> False))"

text \<open>
  A message has no identifier in the source; it is the slot it was appended at (the
  page renders the array with the index as key). A slot is kept from one transcript
  to a later one when it holds the same message, or held the pending placeholder and
  now holds an assistant message that is not pending.
\<close>

definition slot_kept :: "Message option \<Rightarrow> Message option \<Rightarrow> bool" where
  "slot_kept a b =
     (b = a \<or>
      (a = Some placeholder_msg \<and>
       (case b of None \<Rightarrow> False | Some m \<Rightarrow> sender m = Assistant \<and> \<not> pending m)))"

text \<open>
  A later transcript keeps an earlier one when it is at least as long and keeps every
  slot of it, at the same index.
\<close>

definition transcript_kept :: "transcript \<Rightarrow> transcript \<Rightarrow> bool" where
  "transcript_kept old new =
     (length old \<le> length new \<and> list_all2 slot_kept old (take (length old) new))"

subsection \<open>Runs of ChatWindow\<close>

record ChatWindow_sys =
  w_ui :: ChatWindow_state
  w_inflight :: "send_locals list"

datatype ChatWindow_event =
  W_ChangeInput jstring
  | W_Send bool
  | W_ChatSettled nat "chat_data reply"

fun ChatWindow_step :: "ChatWindowProps \<Rightarrow> ChatWindow_event \<Rightarrow> ChatWindow_sys \<Rightarrow> ChatWindow_sys" where
  "ChatWindow_step props (W_ChangeInput v) s = s\<lparr>w_ui := (w_ui s)\<lparr>w_input := v\<rparr>\<rparr>"
| "ChatWindow_step props (W_Send useR) s =
     (case ChatWindow_sendMessage props useR (w_ui s) of
        Returned u \<Rightarrow> s\<lparr>w_ui := u\<rparr>
      | Awaiting q k u \<Rightarrow> s\<lparr>w_ui := u, w_inflight := w_inflight s @ [k]\<rparr>)"
| "ChatWindow_step props (W_ChatSettled n r) s =
     (if n < length (w_inflight s)
      then (case ChatWindow_sendMessage_resume (w_inflight s ! n) r (w_ui s) of
        Returned u \<Rightarrow> s\<lparr>w_ui := u, w_inflight := drop_nth n (w_inflight s)\<rparr>
      | Awaiting q k u \<Rightarrow>
          s\<lparr>w_ui := u, w_inflight := drop_nth n (w_inflight s) @ [k]\<rparr>)
      else s)"

definition ChatWindow_sys_init :: ChatWindow_sys where
  "ChatWindow_sys_init = \<lparr>w_ui = ChatWindow_init, w_inflight = []\<rparr>"

definition ChatWindow_run ::
  "ChatWindowProps \<Rightarrow> ChatWindow_event list \<Rightarrow> ChatWindow_sys \<Rightarrow> ChatWindow_sys" where
  "ChatWindow_run props es s = fold (ChatWindow_step props) es s"

section \<open>The scenarios of the specification\<close>

text \<open>
  The states and replies of the specification's scenarios: a page and a ChatWindow
  with session \<open>s1\<close>, a question typed in, and the replies of the service.
\<close>

definition page_with_session :: "jstring \<Rightarrow> Chat_state" where
  "page_with_session q =
     Chat_init\<lparr>sessionId := Some (js ''s1''), summary := js ''doc about cats'', input := q\<rparr>"

definition window_props :: ChatWindowProps where
  "window_props = \<lparr>p_sessionId = js ''s1'', p_personality = js ''factual'',
     p_summary = js ''doc about cats''\<rparr>"

definition window_with_input :: "jstring \<Rightarrow> ChatWindow_state" where
  "window_with_input q = ChatWindow_init\<lparr>w_input := q\<rparr>"

text \<open>
  A text of white space only, and a text with white space put around it; both use
  white space outside ASCII as well.
\<close>

definition blank_input :: jstring where
  "blank_input = [0x00A0, 0x0020, 0x2028, 0xFEFF, 0x2003, 0x0009]"

definition padded :: "jstring \<Rightarrow> jstring" where
  "padded t = [0x00A0, 0x0020] @ t @ [0x000A, 0x2028]"

definition reply_colors :: "chat_data reply" where
  "reply_colors =
     Response 200 [] (Some (ChatData (Some (js ''Usually orange, black, or white.'')) None))"

definition reply_study :: "chat_data reply" where
  "reply_study =
     Response 200 [] (Some (ChatData (Some (js ''Study X found...'')) (Some [js ''Bing Search''])))"

definition reply_500 :: "'d reply" where
  "reply_500 = Response 500 (js ''Internal Server Error'') None"

text \<open>
  The parent of DocumentUploader is not among the sources. For the examples it is a
  component that keeps the upload's result and a transcript, and whose \<open>onUpload\<close>
  stores the result.
\<close>

record Parent_state =
  session :: "UploadResult option"
  parent_messages :: transcript

definition store_result :: "UploadResult \<Rightarrow> Parent_state \<Rightarrow> Parent_state" where
  "store_result d p = p\<lparr>session := Some d\<rparr>"

definition parent_init :: Parent_state where
  "parent_init = \<lparr>session = None, parent_messages = []\<rparr>"

definition uploader_busy :: Uploader_state where
  "uploader_busy = \<lparr>u_file = Some (js ''cats.pdf''), u_uploading = True\<rparr>"

definition reply_upload :: "UploadResult reply" where
  "reply_upload =
     Response 200 [] (Some (UploadResult (js ''s1'') (Some (js ''doc about cats'')) (js ''cats'')))"

text \<open>
  Two runs: on the page, a document is uploaded and a research question is asked; in
  ChatWindow, a research question is asked. Both wait for the reply.
\<close>

definition page_asking :: "Chat_event list" where
  "page_asking =
     [ChangeFile [js ''cats.pdf''], ClickUpload, UploadSettled reply_upload,
      ChangeInput (js ''Find recent cat studies''), Send True]"

definition window_asking :: "ChatWindow_event list" where
  "window_asking = [W_ChangeInput (js ''Find recent cat studies''), W_Send True]"

definition window_later :: "ChatWindow_event list" where
  "window_later =
     [W_ChangeInput (js ''What color are cats?''), W_Send False, W_ChatSettled 0 reply_500]"

section \<open>Properties\<close>

subsection \<open>Texts and trimming\<close>

lemma js_eq_iff [simp]: "js a = js b \<longleftrightarrow> a = b"
  by (simp add: js_def inj_map_eq_map [OF inj_of_char])

lemma js_empty_iff [simp]: "js a = [] \<longleftrightarrow> a = []"
  by (simp add: js_def)

lemma empty_js_iff [simp]: "[] = js a \<longleftrightarrow> a = []"
  by (auto simp: js_def)

lemma rev_dropWhile_split:
  "rev (dropWhile P (rev d)) @ rev (takeWhile P (rev d)) = d"
proof -
  have "rev (takeWhile P (rev d) @ dropWhile P (rev d)) = rev (rev d)"
    by (simp only: takeWhile_dropWhile_id)
  then show ?thesis
    by (simp only: rev_append rev_rev_ident)
qed

text \<open>
  What \<open>trim\<close> computes: the text is white space, then the trimmed text, then
  white space; and the trimmed text, unless empty, neither starts nor ends with white
  space.
\<close>

lemma trim_split:
  "\<exists>pre post. t = pre @ trim t @ post \<and> list_all is_space pre \<and> list_all is_space post"
proof -
  let ?d = "dropWhile is_space t"
  let ?post = "rev (takeWhile is_space (rev ?d))"
  have "takeWhile is_space t @ ?d = t"
    by (rule takeWhile_dropWhile_id)
  moreover have "trim t @ ?post = ?d"
    unfolding trim_def by (rule rev_dropWhile_split)
  ultimately have "t = takeWhile is_space t @ trim t @ ?post"
    by simp
  moreover have "list_all is_space (takeWhile is_space t)"
    by (auto simp: list_all_iff dest: set_takeWhileD)
  moreover have "list_all is_space ?post"
    by (auto simp: list_all_iff dest: set_takeWhileD)
  ultimately show ?thesis by blast
qed

lemma trim_ends:
  assumes "trim t \<noteq> []"
  shows "\<not> is_space (hd (trim t)) \<and> \<not> is_space (last (trim t))"
proof -
  let ?d = "dropWhile is_space t"
  let ?e = "dropWhile is_space (rev ?d)"
  from assms have e: "?e \<noteq> []"
    by (simp add: trim_def)
  then have "\<not> is_space (hd ?e)"
    by (rule hd_dropWhile)
  moreover have "last (trim t) = hd ?e"
    using e by (simp add: trim_def last_rev)
  ultimately have l: "\<not> is_space (last (trim t))"
    by simp
  have d: "?d \<noteq> []"
  proof
    assume "?d = []"
    then have "?e = dropWhile is_space (rev [])"
      by (simp only:)
    with e show False by simp
  qed
  then have nd: "\<not> is_space (hd ?d)"
    by (rule hd_dropWhile)
  have "trim t @ rev (takeWhile is_space (rev ?d)) = ?d"
    unfolding trim_def by (rule rev_dropWhile_split)
  then have "hd ?d = hd (trim t @ rev (takeWhile is_space (rev ?d)))"
    by simp
  with assms have "hd ?d = hd (trim t)"
    by simp
  with nd l show ?thesis by simp
qed

lemma trim_blank: "trim blank_input = []"
  by (simp add: trim_def is_space_def blank_input_def)

lemma trim_word: "trim (js '' cats? '') = js ''cats?''"
  by (simp add: trim_def is_space_def js_def)

lemma trim_colors: "trim (js ''What color are cats?'') = js ''What color are cats?''"
  by (simp add: trim_def is_space_def js_def)

lemma trim_studies: "trim (js ''Find recent cat studies'') = js ''Find recent cat studies''"
  by (simp add: trim_def is_space_def js_def)

lemma trim_padded_colors:
  "trim (padded (js ''What color are cats?'')) = js ''What color are cats?''"
  by (simp add: trim_def is_space_def js_def padded_def)

lemma trim_padded_studies:
  "trim (padded (js ''Find recent cat studies'')) = js ''Find recent cat studies''"
  by (simp add: trim_def is_space_def js_def padded_def)

subsection \<open>When a call is sent\<close>

lemma sendMessage_guard:
  "trim (input s) = [] \<or> isTyping s \<Longrightarrow> sendMessage useR s = Returned s"
  by (simp add: sendMessage_def)

lemma sendMessage_sent:
  assumes "trim (input s) \<noteq> []" and "\<not> isTyping s"
    and "sessionId s = Some sid" and "sid \<noteq> []"
  shows "sendMessage useR s =
     Awaiting
       \<lparr>question = trim (input s), session_id = sid,
        req_personality = personality s, research = useR\<rparr>
       \<lparr>useResearch = useR,
        placeholderIndex = (if useR then Some (length (messages s) + 1) else None)\<rparr>
       (s\<lparr>input := [],
          messages := messages s @ Some (user_msg (trim (input s)))
                        # (if useR then [Some placeholder_msg] else []),
          isTyping := True\<rparr>)"
  using assms by (simp add: sendMessage_def Let_def)

lemma sendMessage_Awaiting_iff:
  "(\<exists>q k s1. sendMessage useR s = Awaiting q k s1) \<longleftrightarrow>
     (trim (input s) \<noteq> [] \<and> \<not> isTyping s \<and> (\<exists>sid. sessionId s = Some sid \<and> sid \<noteq> []))"
  by (auto simp: sendMessage_def Let_def split: option.splits if_splits)

lemma ChatWindow_sendMessage_guard:
  "trim (w_input w) = [] \<or> w_isLoading w \<Longrightarrow> ChatWindow_sendMessage props useR w = Returned w"
  by (simp add: ChatWindow_sendMessage_def)

lemma ChatWindow_sendMessage_sent:
  assumes "trim (w_input w) \<noteq> []" and "\<not> w_isLoading w"
  shows "ChatWindow_sendMessage props useR w =
     Awaiting
       \<lparr>question = trim (w_input w), session_id = p_sessionId props,
        req_personality = p_personality props, research = useR\<rparr>
       \<lparr>useResearch = useR,
        placeholderIndex = (if useR then Some (length (w_messages w) + 1) else None)\<rparr>
       (w\<lparr>w_input := [],
          w_messages := w_messages w @ Some (user_msg (trim (w_input w)))
                          # (if useR then [Some placeholder_msg] else []),
          w_isLoading := True\<rparr>)"
  using assms by (simp add: ChatWindow_sendMessage_def Let_def)

lemma ChatWindow_sendMessage_Awaiting_iff:
  "(\<exists>q k w1. ChatWindow_sendMessage props useR w = Awaiting q k w1) \<longleftrightarrow>
     (trim (w_input w) \<noteq> [] \<and> \<not> w_isLoading w)"
  by (auto simp: ChatWindow_sendMessage_def Let_def)

subsection \<open>Guards of \<open>ask\<close>\<close>

text \<open>
  C9. A call of \<open>sendMessage\<close> whose input is empty after trimming (empty, or
  made of the white space and line terminators of ECMAScript only), or that is made
  while a request is in flight (\<open>isTyping\<close> on the page, \<open>isLoading\<close> in
  ChatWindow), returns at once and leaves the whole state of the component as it was:
  transcript, lifecycle flag, session and input. The segment ends in \<open>Returned\<close>, so
  no request is sent.
\<close>

theorem ask_noop:
  "(trim (input s) = [] \<or> isTyping s \<longrightarrow> sendMessage useR s = Returned s) \<and>
   (trim (w_input w) = [] \<or> w_isLoading w \<longrightarrow>
      ChatWindow_sendMessage props useR' w = Returned w)"
  by (simp add: sendMessage_guard ChatWindow_sendMessage_guard)

theorem ask_noop_witness:
  "(trim (input (Chat_init\<lparr>input := blank_input\<rparr>)) = [] \<or>
      isTyping (Chat_init\<lparr>input := blank_input\<rparr>)) \<and>
   sendMessage False (Chat_init\<lparr>input := blank_input\<rparr>) =
     Returned (Chat_init\<lparr>input := blank_input\<rparr>) \<and>
   sendMessage True (page_with_session blank_input) =
     Returned (page_with_session blank_input) \<and>
   (trim (w_input (ChatWindow_init\<lparr>w_input := js '' cats? '', w_isLoading := True\<rparr>)) = [] \<or>
      w_isLoading (ChatWindow_init\<lparr>w_input := js '' cats? '', w_isLoading := True\<rparr>)) \<and>
   ChatWindow_sendMessage window_props True
       (ChatWindow_init\<lparr>w_input := js '' cats? '', w_isLoading := True\<rparr>)
     = Returned (ChatWindow_init\<lparr>w_input := js '' cats? '', w_isLoading := True\<rparr>) \<and>
   ChatWindow_sendMessage window_props False (window_with_input blank_input)
     = Returned (window_with_input blank_input)"
  using ask_noop [of "Chat_init\<lparr>input := blank_input\<rparr>" False
      "ChatWindow_init\<lparr>w_input := js '' cats? '', w_isLoading := True\<rparr>"
      window_props True]
    ask_noop [of "page_with_session blank_input" True
      "window_with_input blank_input" window_props False]
  by (simp add: trim_blank page_with_session_def window_with_input_def)

text \<open>
  C6. On the page, a call of \<open>sendMessage\<close> with a question that is not empty, no
  request in flight and \<open>sessionId\<close> null appends one message, the assistant's
  request to upload a document first, and returns: no request is sent, and
  \<open>isTyping\<close> stays false. Nothing else of the state changes.
\<close>

theorem ask_without_session:
  assumes "trim (input s) \<noteq> []" and "\<not> isTyping s" and "sessionId s = None"
  shows "sendMessage useR s =
           Returned (s\<lparr>messages := messages s @ [Some guidance_msg]\<rparr>) \<and>
         sender guidance_msg = Assistant \<and>
         content guidance_msg = js ''Please upload a document first.'' \<and>
         \<not> pending guidance_msg \<and>
         \<not> isTyping (s\<lparr>messages := messages s @ [Some guidance_msg]\<rparr>)"
  using assms by (simp add: sendMessage_def guidance_msg_def pending_def)

theorem ask_without_session_witness:
  "trim (input (Chat_init\<lparr>input := js '' cats? ''\<rparr>)) \<noteq> [] \<and>
   \<not> isTyping (Chat_init\<lparr>input := js '' cats? ''\<rparr>) \<and>
   sessionId (Chat_init\<lparr>input := js '' cats? ''\<rparr>) = None \<and>
   sendMessage False (Chat_init\<lparr>input := js '' cats? ''\<rparr>) =
     Returned (Chat_init\<lparr>input := js '' cats? '', messages := [Some guidance_msg]\<rparr>)"
  using ask_without_session [of "Chat_init\<lparr>input := js '' cats? ''\<rparr>" False]
  by (simp add: trim_word Chat_init_def)

subsection \<open>The second segment\<close>

lemma reconcile_placeholder:
  "reconcile \<lparr>useResearch = True, placeholderIndex = Some i\<rparr> t ms =
     array_set ms i (assistant_msg t)"
  by (simp add: reconcile_def)

lemma reconcile_append:
  "reconcile \<lparr>useResearch = False, placeholderIndex = None\<rparr> t ms =
     ms @ [Some (assistant_msg t)]"
  by (simp add: reconcile_def)

lemma array_set_last_of_two:
  "array_set (ms @ [a, b]) (Suc (length ms)) v = ms @ [a, Some v]"
  by (simp add: array_set_def list_update_append)

lemma array_set_inside:
  "i < length ms \<Longrightarrow> array_set ms i v = ms[i := Some v]"
  by (simp add: array_set_def)

lemma sendMessage_resume_ok:
  "response_ok st \<Longrightarrow>
   sendMessage_resume k (Response st txt (Some d)) s =
     Returned (s\<lparr>messages := reconcile k (answer_or_default (answer d)) (messages s),
                 isTyping := False\<rparr>)"
  by (simp add: sendMessage_resume_def sendMessage_try_def)

lemma sendMessage_resume_failed:
  "failed r \<Longrightarrow>
   sendMessage_resume k r s =
     Returned (s\<lparr>messages := reconcile k errMsg (messages s), isTyping := False\<rparr>)"
  by (auto simp: failed_def sendMessage_resume_def sendMessage_try_def sendMessage_catch_def
      split: reply.splits option.splits)

lemma sendMessage_resume_Returned:
  "\<exists>s'. sendMessage_resume k r s = Returned s' \<and> \<not> isTyping s'"
  by (simp add: sendMessage_resume_def Let_def)

lemma ChatWindow_resume_ok:
  "response_ok st \<Longrightarrow>
   ChatWindow_sendMessage_resume k (Response st txt (Some d)) w =
     Returned (w\<lparr>w_messages := reconcile k (answer_or_default (answer d)) (w_messages w),
                 toolUsed := (case tools_used d of
                                None \<Rightarrow> toolUsed w
                              | Some tools \<Rightarrow>
                                  if js ''Bing Search'' \<in> set tools then Some tool_banner
                                  else toolUsed w),
                 w_isLoading := False\<rparr>)"
  by (simp add: ChatWindow_sendMessage_resume_def ChatWindow_sendMessage_try_def Let_def
      split: option.splits)

lemma ChatWindow_resume_failed:
  "failed r \<Longrightarrow>
   ChatWindow_sendMessage_resume k r w =
     Returned (w\<lparr>w_messages := reconcile k errMsg (w_messages w), w_isLoading := False\<rparr>)"
  by (auto simp: failed_def ChatWindow_sendMessage_resume_def ChatWindow_sendMessage_try_def
      ChatWindow_sendMessage_catch_def split: reply.splits option.splits)

lemma ChatWindow_resume_Returned:
  "\<exists>w'. ChatWindow_sendMessage_resume k r w = Returned w' \<and> \<not> w_isLoading w'"
  by (simp add: ChatWindow_sendMessage_resume_def Let_def)

subsection \<open>A research exchange\<close>

text \<open>
  The claim C1 as stated, for every call with a session identifier that is not null,
  fails: the guard is \<^verbatim>\<open>if (!sessionId)\<close>, which holds for the empty string as it
  does for null. With \<open>sessionId\<close> the empty string, idle and a question typed in,
  \<open>sendMessage(true)\<close> appends the guidance message only, and no placeholder; and
  with a session but a question of white space only it does nothing.
\<close>

theorem research_empty_session_counterexample:
  "sessionId (Chat_init\<lparr>sessionId := Some [], input := js ''Find recent cat studies''\<rparr>)
     \<noteq> None \<and>
   \<not> isTyping (Chat_init\<lparr>sessionId := Some [], input := js ''Find recent cat studies''\<rparr>) \<and>
   sendMessage True (Chat_init\<lparr>sessionId := Some [], input := js ''Find recent cat studies''\<rparr>) =
     Returned (Chat_init\<lparr>sessionId := Some [], input := js ''Find recent cat studies'',
                 messages := [Some guidance_msg]\<rparr>) \<and>
   sessionId (page_with_session blank_input) = Some (js ''s1'') \<and>
   \<not> isTyping (page_with_session blank_input) \<and>
   sendMessage True (page_with_session blank_input) = Returned (page_with_session blank_input)"
  by (simp add: sendMessage_def Chat_init_def trim_studies trim_blank page_with_session_def)

text \<open>
  C1, amended. On the page, \<open>sendMessage(true)\<close> called with a question that is not
  empty after trimming, no request in flight and a session identifier that is neither
  null nor the empty string appends the user message and, right after it, the pending
  placeholder \<open>Conducting deep research...\<close>, and remembers the placeholder's
  index. When a successful reply arrives, the slot at that index, which still holds
  the placeholder, is overwritten with an assistant message that is not pending and
  carries the answer, or \<open>*(No answer)*\<close> when the answer is missing or empty. The
  transcript then is the old one followed by exactly these two messages.
\<close>

theorem research_exchange:
  assumes "trim (input s) \<noteq> []" and "\<not> isTyping s"
    and "sessionId s = Some sid" and "sid \<noteq> []" and "response_ok st"
  shows
    "let ask = trim (input s);
         k = \<lparr>useResearch = True, placeholderIndex = Some (length (messages s) + 1)\<rparr>;
         s1 = s\<lparr>input := [],
                messages := messages s @ [Some (user_msg ask), Some placeholder_msg],
                isTyping := True\<rparr>;
         final = assistant_msg (answer_or_default a);
         s2 = s\<lparr>input := [],
                messages := messages s @ [Some (user_msg ask), Some final],
                isTyping := False\<rparr>
     in sendMessage True s =
          Awaiting \<lparr>question = ask, session_id = sid,
                    req_personality = personality s, research = True\<rparr> k s1 \<and>
        messages s1 ! (length (messages s) + 1) = Some placeholder_msg \<and>
        content placeholder_msg = js ''Conducting deep research...'' \<and>
        sender placeholder_msg = Assistant \<and> pending placeholder_msg \<and>
        sendMessage_resume k (Response st txt (Some (ChatData a tools))) s1 = Returned s2 \<and>
        messages s2 = (messages s1)[length (messages s) + 1 := Some final] \<and>
        length (messages s2) = length (messages s) + 2 \<and>
        sender final = Assistant \<and> \<not> pending final \<and>
        content final =
          (case a of None \<Rightarrow> (js ''*(No answer)*'')
           | Some t \<Rightarrow> if t = [] then (js ''*(No answer)*'') else t)"
proof -
  let ?ask = "trim (input s)"
  let ?k = "\<lparr>useResearch = True, placeholderIndex = Some (length (messages s) + 1)\<rparr>"
  let ?s1 = "s\<lparr>input := [],
      messages := messages s @ [Some (user_msg ?ask), Some placeholder_msg],
      isTyping := True\<rparr>"
  let ?final = "assistant_msg (answer_or_default a)"
  let ?s2 = "s\<lparr>input := [],
      messages := messages s @ [Some (user_msg ?ask), Some ?final],
      isTyping := False\<rparr>"
  have sent: "sendMessage True s =
      Awaiting \<lparr>question = ?ask, session_id = sid,
        req_personality = personality s, research = True\<rparr> ?k ?s1"
    using assms(1-4) by (simp add: sendMessage_sent)
  have resumed:
    "sendMessage_resume ?k (Response st txt (Some (ChatData a tools))) ?s1 = Returned ?s2"
    using assms(5)
    by (simp add: sendMessage_resume_ok reconcile_placeholder array_set_last_of_two)
  have upd: "messages ?s2 = (messages ?s1)[length (messages s) + 1 := Some ?final]"
    by (simp add: list_update_append)
  have slot: "messages ?s1 ! (length (messages s) + 1) = Some placeholder_msg"
    by (simp add: nth_append)
  have ph: "content placeholder_msg = js ''Conducting deep research...'' \<and>
     sender placeholder_msg = Assistant \<and> pending placeholder_msg"
    by (simp add: placeholder_msg_def pending_def)
  have fin: "sender ?final = Assistant \<and> \<not> pending ?final \<and>
     content ?final =
       (case a of None \<Rightarrow> (js ''*(No answer)*'')
        | Some t \<Rightarrow> if t = [] then (js ''*(No answer)*'') else t)"
    by (simp add: assistant_msg_def pending_def answer_or_default_def no_answer_def
        split: option.splits)
  have len: "length (messages ?s2) = length (messages s) + 2"
    by simp
  show ?thesis
    unfolding Let_def using sent resumed upd slot ph fin len by blast
qed

theorem research_exchange_witness:
  "trim (input (page_with_session (padded (js ''Find recent cat studies'')))) \<noteq> [] \<and>
   \<not> isTyping (page_with_session (padded (js ''Find recent cat studies''))) \<and>
   sessionId (page_with_session (padded (js ''Find recent cat studies''))) = Some (js ''s1'') \<and>
   response_ok 200 \<and>
   sendMessage True (page_with_session (padded (js ''Find recent cat studies''))) =
     Awaiting
       \<lparr>question = js ''Find recent cat studies'', session_id = js ''s1'',
        req_personality = js ''factual'', research = True\<rparr>
       \<lparr>useResearch = True, placeholderIndex = Some 1\<rparr>
       ((page_with_session [])
          \<lparr>messages := [Some (user_msg (js ''Find recent cat studies'')), Some placeholder_msg],
           isTyping := True\<rparr>) \<and>
   sendMessage_resume \<lparr>useResearch = True, placeholderIndex = Some 1\<rparr> reply_study
       ((page_with_session [])
          \<lparr>messages := [Some (user_msg (js ''Find recent cat studies'')), Some placeholder_msg],
           isTyping := True\<rparr>) =
     Returned
       ((page_with_session [])
          \<lparr>messages := [Some (user_msg (js ''Find recent cat studies'')),
                        Some (assistant_msg (js ''Study X found...''))]\<rparr>)"
  using research_exchange [of "page_with_session (padded (js ''Find recent cat studies''))" "(js ''s1'')" 200
      "Some (js ''Study X found...'')" "[]" "Some [js ''Bing Search'']"]
  by (simp add: page_with_session_def Chat_init_def trim_padded_studies response_ok_def
      reply_study_def answer_or_default_def Let_def)

subsection \<open>A direct exchange\<close>

text \<open>
  The claim C5 as stated, for every call with a session identifier that is not null,
  fails for the same guard \<^verbatim>\<open>if (!sessionId)\<close>: with \<open>sessionId\<close> the empty
  string, idle and a question typed in, \<open>sendMessage(false)\<close> appends the guidance
  message only, not the user message, and sends nothing; and with a session but a
  question of white space only it does nothing.
\<close>

theorem direct_empty_session_counterexample:
  "sessionId (Chat_init\<lparr>sessionId := Some [], input := js ''What color are cats?''\<rparr>)
     \<noteq> None \<and>
   \<not> isTyping (Chat_init\<lparr>sessionId := Some [], input := js ''What color are cats?''\<rparr>) \<and>
   sendMessage False (Chat_init\<lparr>sessionId := Some [], input := js ''What color are cats?''\<rparr>) =
     Returned (Chat_init\<lparr>sessionId := Some [], input := js ''What color are cats?'',
                 messages := [Some guidance_msg]\<rparr>) \<and>
   sessionId (page_with_session blank_input) = Some (js ''s1'') \<and>
   \<not> isTyping (page_with_session blank_input) \<and>
   sendMessage False (page_with_session blank_input) = Returned (page_with_session blank_input)"
  by (simp add: sendMessage_def Chat_init_def trim_colors trim_blank page_with_session_def)

text \<open>
  C5, amended. On the page, \<open>sendMessage(false)\<close> called with a question that is
  not empty after trimming, no request in flight and a session identifier that is
  neither null nor the empty string sends the request and appends the user message.
  Its content \<open>ask\<close> is the trimmed question: the input is white space, then
  \<open>ask\<close>, then white space, and \<open>ask\<close> neither starts nor ends with white space
  (white space being that of \<^verbatim>\<open>String.prototype.trim\<close>). The request carries the
  same text. When the service's reply carries an answer, an assistant message with
  that answer is appended. The transcript then is the old one followed by exactly
  these two messages, in this order, and \<open>isTyping\<close> is false again.
\<close>

theorem direct_exchange:
  assumes "trim (input s) \<noteq> []" and "\<not> isTyping s"
    and "sessionId s = Some sid" and "sid \<noteq> []"
    and "response_ok st" and "a \<noteq> []"
  shows
    "\<exists>ask pre post.
        input s = pre @ ask @ post \<and> list_all is_space pre \<and> list_all is_space post \<and>
        ask \<noteq> [] \<and> \<not> is_space (hd ask) \<and> \<not> is_space (last ask) \<and>
        sendMessage False s =
          Awaiting \<lparr>question = ask, session_id = sid,
                    req_personality = personality s, research = False\<rparr>
            \<lparr>useResearch = False, placeholderIndex = None\<rparr>
            (s\<lparr>input := [], messages := messages s @ [Some (user_msg ask)],
               isTyping := True\<rparr>) \<and>
        sendMessage_resume \<lparr>useResearch = False, placeholderIndex = None\<rparr>
            (Response st txt (Some (ChatData (Some a) tools)))
            (s\<lparr>input := [], messages := messages s @ [Some (user_msg ask)],
               isTyping := True\<rparr>) =
          Returned
            (s\<lparr>input := [],
               messages := messages s @ [Some (user_msg ask), Some (assistant_msg a)],
               isTyping := False\<rparr>) \<and>
        sender (user_msg ask) = User \<and> content (user_msg ask) = ask \<and>
        sender (assistant_msg a) = Assistant \<and> content (assistant_msg a) = a \<and>
        \<not> pending (assistant_msg a)"
proof -
  let ?ask = "trim (input s)"
  let ?k = "\<lparr>useResearch = False, placeholderIndex = None\<rparr>"
  let ?s1 = "s\<lparr>input := [], messages := messages s @ [Some (user_msg ?ask)],
      isTyping := True\<rparr>"
  let ?s2 = "s\<lparr>input := [],
      messages := messages s @ [Some (user_msg ?ask), Some (assistant_msg a)],
      isTyping := False\<rparr>"
  from trim_split [of "input s"] obtain pre post where
    split: "input s = pre @ ?ask @ post" "list_all is_space pre" "list_all is_space post"
    by blast
  from trim_ends [OF assms(1)]
  have ends: "\<not> is_space (hd ?ask)" "\<not> is_space (last ?ask)"
    by simp_all
  have sent: "sendMessage False s =
      Awaiting \<lparr>question = ?ask, session_id = sid,
        req_personality = personality s, research = False\<rparr> ?k ?s1"
    using assms(1-4) by (simp add: sendMessage_sent)
  have "answer_or_default (Some a) = a"
    using assms(6) by (simp add: answer_or_default_def)
  then have resumed:
    "sendMessage_resume ?k (Response st txt (Some (ChatData (Some a) tools))) ?s1 = Returned ?s2"
    using assms(5) by (simp add: sendMessage_resume_ok reconcile_append)
  have msgs: "sender (user_msg ?ask) = User \<and> content (user_msg ?ask) = ?ask \<and>
      sender (assistant_msg a) = Assistant \<and> content (assistant_msg a) = a \<and>
      \<not> pending (assistant_msg a)"
    by (simp add: user_msg_def assistant_msg_def pending_def)
  from split ends assms(1) sent resumed msgs show ?thesis
    by blast
qed

theorem direct_exchange_witness:
  "input (page_with_session (padded (js ''What color are cats?''))) =
     [0x00A0, 0x0020] @ js ''What color are cats?'' @ [0x000A, 0x2028] \<and>
   list_all is_space [0x00A0, 0x0020] \<and> list_all is_space [0x000A, 0x2028] \<and>
   trim (input (page_with_session (padded (js ''What color are cats?'')))) =
     js ''What color are cats?'' \<and>
   \<not> isTyping (page_with_session (padded (js ''What color are cats?''))) \<and>
   sessionId (page_with_session (padded (js ''What color are cats?''))) = Some (js ''s1'') \<and>
   response_ok 200 \<and>
   sendMessage False (page_with_session (padded (js ''What color are cats?''))) =
     Awaiting
       \<lparr>question = js ''What color are cats?'', session_id = js ''s1'',
        req_personality = js ''factual'', research = False\<rparr>
       \<lparr>useResearch = False, placeholderIndex = None\<rparr>
       ((page_with_session [])
          \<lparr>messages := [Some (user_msg (js ''What color are cats?''))], isTyping := True\<rparr>) \<and>
   sendMessage_resume \<lparr>useResearch = False, placeholderIndex = None\<rparr> reply_colors
       ((page_with_session [])
          \<lparr>messages := [Some (user_msg (js ''What color are cats?''))], isTyping := True\<rparr>) =
     Returned
       ((page_with_session [])
          \<lparr>messages := [Some (user_msg (js ''What color are cats?'')),
                        Some (assistant_msg (js ''Usually orange, black, or white.''))]\<rparr>)"
proof -
  let ?s = "page_with_session (padded (js ''What color are cats?''))"
  have pre: "trim (input ?s) \<noteq> []" "\<not> isTyping ?s" "sessionId ?s = Some (js ''s1'')"
    "js ''s1'' \<noteq> []" "response_ok 200" "js ''Usually orange, black, or white.'' \<noteq> []"
    by (simp_all add: page_with_session_def Chat_init_def trim_padded_colors response_ok_def)
  from direct_exchange [OF pre, of "[]" None] obtain ask pre' post where
    sent: "sendMessage False ?s =
          Awaiting \<lparr>question = ask, session_id = js ''s1'',
                    req_personality = personality ?s, research = False\<rparr>
            \<lparr>useResearch = False, placeholderIndex = None\<rparr>
            (?s\<lparr>input := [], messages := messages ?s @ [Some (user_msg ask)],
               isTyping := True\<rparr>)"
    and resumed: "sendMessage_resume \<lparr>useResearch = False, placeholderIndex = None\<rparr>
            (Response 200 [] (Some (ChatData (Some (js ''Usually orange, black, or white.'')) None)))
            (?s\<lparr>input := [], messages := messages ?s @ [Some (user_msg ask)],
               isTyping := True\<rparr>) =
          Returned
            (?s\<lparr>input := [],
               messages := messages ?s @ [Some (user_msg ask),
                  Some (assistant_msg (js ''Usually orange, black, or white.''))],
               isTyping := False\<rparr>)"
    by blast
  have "sendMessage False ?s =
      Awaiting \<lparr>question = trim (input ?s), session_id = js ''s1'',
                req_personality = personality ?s, research = False\<rparr>
        \<lparr>useResearch = False, placeholderIndex = None\<rparr>
        (?s\<lparr>input := [], messages := messages ?s @ [Some (user_msg (trim (input ?s)))],
           isTyping := True\<rparr>)"
    using pre(1-4) by (simp add: sendMessage_sent)
  with sent have "ask = trim (input ?s)"
    by simp
  then have ask: "ask = js ''What color are cats?''"
    by (simp add: page_with_session_def trim_padded_colors)
  have ws: "list_all is_space [0x00A0, 0x0020]" "list_all is_space [0x000A, 0x2028]"
    by (simp_all add: is_space_def)
  have inp: "input ?s = [0x00A0, 0x0020] @ js ''What color are cats?'' @ [0x000A, 0x2028]"
    by (simp add: page_with_session_def padded_def)
  have tr: "trim (input ?s) = js ''What color are cats?''"
    by (simp add: page_with_session_def trim_padded_colors)
  from sent ask have sent': "sendMessage False ?s =
     Awaiting
       \<lparr>question = js ''What color are cats?'', session_id = js ''s1'',
        req_personality = js ''factual'', research = False\<rparr>
       \<lparr>useResearch = False, placeholderIndex = None\<rparr>
       ((page_with_session [])
          \<lparr>messages := [Some (user_msg (js ''What color are cats?''))], isTyping := True\<rparr>)"
    by (simp add: page_with_session_def Chat_init_def)
  from resumed ask have resumed':
    "sendMessage_resume \<lparr>useResearch = False, placeholderIndex = None\<rparr> reply_colors
       ((page_with_session [])
          \<lparr>messages := [Some (user_msg (js ''What color are cats?''))], isTyping := True\<rparr>) =
     Returned
       ((page_with_session [])
          \<lparr>messages := [Some (user_msg (js ''What color are cats?'')),
                        Some (assistant_msg (js ''Usually orange, black, or white.''))]\<rparr>)"
    by (simp add: page_with_session_def Chat_init_def reply_colors_def)
  from inp ws tr pre(2,3,5) sent' resumed' show ?thesis
    by blast
qed

subsection \<open>The lifecycle flag\<close>

text \<open>
  C2. When a call of \<open>sendMessage\<close> sends its request (its first segment ends at the
  \<open>await\<close>), the flag is set: \<open>isTyping\<close> on the page, \<open>isLoading\<close> in
  ChatWindow. Whatever the reply is (a rejected fetch, a status that is not a success,
  a body that does not parse, or an answer) and whatever state the component is in when
  it arrives, the second segment returns with the flag cleared. The call is sent
  exactly when the trimmed input is not empty, no request is in flight and, on the
  page, the session identifier is a string that is not empty
  (\<open>sendMessage_Awaiting_iff\<close>, \<open>ChatWindow_sendMessage_Awaiting_iff\<close>).
\<close>

theorem lifecycle_returns_to_idle:
  "(sendMessage useR s = Awaiting q k s1 \<longrightarrow>
      isTyping s1 \<and> (\<exists>s3. sendMessage_resume k r s2 = Returned s3 \<and> \<not> isTyping s3)) \<and>
   (ChatWindow_sendMessage props useR' w = Awaiting q' k' w1 \<longrightarrow>
      w_isLoading w1 \<and>
      (\<exists>w3. ChatWindow_sendMessage_resume k' r' w2 = Returned w3 \<and> \<not> w_isLoading w3))"
proof -
  have "isTyping s1" if "sendMessage useR s = Awaiting q k s1"
    using that by (auto simp: sendMessage_def Let_def split: option.splits if_splits)
  moreover have "w_isLoading w1" if "ChatWindow_sendMessage props useR' w = Awaiting q' k' w1"
    using that by (auto simp: ChatWindow_sendMessage_def Let_def split: if_splits)
  ultimately show ?thesis
    using sendMessage_resume_Returned [of k r s2] ChatWindow_resume_Returned [of k' r' w2]
    by blast
qed

theorem lifecycle_returns_to_idle_witness:
  "sendMessage False (page_with_session (js ''What color are cats?'')) =
     Awaiting
       \<lparr>question = js ''What color are cats?'', session_id = js ''s1'',
        req_personality = js ''factual'', research = False\<rparr>
       \<lparr>useResearch = False, placeholderIndex = None\<rparr>
       ((page_with_session [])
          \<lparr>messages := [Some (user_msg (js ''What color are cats?''))], isTyping := True\<rparr>) \<and>
   (\<exists>s3. sendMessage_resume \<lparr>useResearch = False, placeholderIndex = None\<rparr> reply_500
            ((page_with_session [])
               \<lparr>messages := [Some (user_msg (js ''What color are cats?''))], isTyping := True\<rparr>)
          = Returned s3 \<and> \<not> isTyping s3) \<and>
   ChatWindow_sendMessage window_props True (window_with_input (js ''Find recent cat studies'')) =
     Awaiting
       \<lparr>question = js ''Find recent cat studies'', session_id = js ''s1'',
        req_personality = js ''factual'', research = True\<rparr>
       \<lparr>useResearch = True, placeholderIndex = Some 1\<rparr>
       (ChatWindow_init
          \<lparr>w_messages := [Some (user_msg (js ''Find recent cat studies'')), Some placeholder_msg],
           w_isLoading := True\<rparr>) \<and>
   (\<exists>w3. ChatWindow_sendMessage_resume \<lparr>useResearch = True, placeholderIndex = Some 1\<rparr>
            Rejected
            (ChatWindow_init
               \<lparr>w_messages := [Some (user_msg (js ''Find recent cat studies'')), Some placeholder_msg],
                w_isLoading := True\<rparr>)
          = Returned w3 \<and> \<not> w_isLoading w3)"
proof -
  have a: "sendMessage False (page_with_session (js ''What color are cats?'')) =
     Awaiting
       \<lparr>question = js ''What color are cats?'', session_id = js ''s1'',
        req_personality = js ''factual'', research = False\<rparr>
       \<lparr>useResearch = False, placeholderIndex = None\<rparr>
       ((page_with_session [])
          \<lparr>messages := [Some (user_msg (js ''What color are cats?''))], isTyping := True\<rparr>)"
    by (simp add: sendMessage_def page_with_session_def Chat_init_def trim_colors Let_def)
  have b: "ChatWindow_sendMessage window_props True (window_with_input (js ''Find recent cat studies'')) =
     Awaiting
       \<lparr>question = js ''Find recent cat studies'', session_id = js ''s1'',
        req_personality = js ''factual'', research = True\<rparr>
       \<lparr>useResearch = True, placeholderIndex = Some 1\<rparr>
       (ChatWindow_init
          \<lparr>w_messages := [Some (user_msg (js ''Find recent cat studies'')), Some placeholder_msg],
           w_isLoading := True\<rparr>)"
    by (simp add: ChatWindow_sendMessage_def window_with_input_def window_props_def
        ChatWindow_init_def trim_studies Let_def)
  from a b lifecycle_returns_to_idle [of False "page_with_session (js ''What color are cats?'')"
      _ _ _ reply_500 _ window_props True "window_with_input (js ''Find recent cat studies'')"
      _ _ _ Rejected]
  show ?thesis by blast
qed

subsection \<open>A failed exchange\<close>

lemma sendMessage_Awaiting_parts:
  assumes "sendMessage useR s = Awaiting q k s1"
  shows "k = \<lparr>useResearch = useR,
              placeholderIndex = (if useR then Some (length (messages s) + 1) else None)\<rparr> \<and>
         s1 = s\<lparr>input := [],
                messages := messages s @ Some (user_msg (trim (input s)))
                              # (if useR then [Some placeholder_msg] else []),
                isTyping := True\<rparr>"
proof -
  from assms sendMessage_Awaiting_iff [of useR s]
  obtain sid where "trim (input s) \<noteq> []" "\<not> isTyping s" "sessionId s = Some sid" "sid \<noteq> []"
    by blast
  from sendMessage_sent [OF this, of useR] assms show ?thesis by simp
qed

lemma ChatWindow_Awaiting_parts:
  assumes "ChatWindow_sendMessage props useR w = Awaiting q k w1"
  shows "k = \<lparr>useResearch = useR,
              placeholderIndex = (if useR then Some (length (w_messages w) + 1) else None)\<rparr> \<and>
         w1 = w\<lparr>w_input := [],
                w_messages := w_messages w @ Some (user_msg (trim (w_input w)))
                                # (if useR then [Some placeholder_msg] else []),
                w_isLoading := True\<rparr>"
proof -
  from assms ChatWindow_sendMessage_Awaiting_iff [of props useR w]
  have "trim (w_input w) \<noteq> []" "\<not> w_isLoading w"
    by blast+
  from ChatWindow_sendMessage_sent [OF this, of props useR] assms show ?thesis by simp
qed

lemma failed_page_exchange:
  assumes "sendMessage useR s = Awaiting q k s1" and "failed r"
  shows "sendMessage_resume k r s1 =
           Returned (s1\<lparr>messages :=
                          (if useR
                           then (messages s1)[length (messages s) + 1 :=
                                                Some (assistant_msg errMsg)]
                           else messages s1 @ [Some (assistant_msg errMsg)]),
                        isTyping := False\<rparr>) \<and>
         (useR \<longrightarrow> length (messages s) + 1 < length (messages s1) \<and>
                  messages s1 ! (length (messages s) + 1) = Some placeholder_msg)"
proof (cases useR)
  case True
  with sendMessage_Awaiting_parts [OF assms(1)] assms(2) show ?thesis
    by (simp add: sendMessage_resume_failed reconcile_placeholder array_set_last_of_two
        list_update_append nth_append)
next
  case False
  with sendMessage_Awaiting_parts [OF assms(1)] assms(2) show ?thesis
    by (simp add: sendMessage_resume_failed reconcile_append)
qed

lemma failed_window_exchange:
  assumes "ChatWindow_sendMessage props useR w = Awaiting q k w1" and "failed r"
  shows "ChatWindow_sendMessage_resume k r w1 =
           Returned (w1\<lparr>w_messages :=
                          (if useR
                           then (w_messages w1)[length (w_messages w) + 1 :=
                                                  Some (assistant_msg errMsg)]
                           else w_messages w1 @ [Some (assistant_msg errMsg)]),
                        w_isLoading := False\<rparr>) \<and>
         (useR \<longrightarrow> length (w_messages w) + 1 < length (w_messages w1) \<and>
                  w_messages w1 ! (length (w_messages w) + 1) = Some placeholder_msg) \<and>
         toolUsed w1 = toolUsed w"
proof (cases useR)
  case True
  with ChatWindow_Awaiting_parts [OF assms(1)] assms(2) show ?thesis
    by (simp add: ChatWindow_resume_failed reconcile_placeholder array_set_last_of_two
        list_update_append nth_append)
next
  case False
  with ChatWindow_Awaiting_parts [OF assms(1)] assms(2) show ?thesis
    by (simp add: ChatWindow_resume_failed reconcile_append)
qed

text \<open>
  C3. Let a call of \<open>sendMessage\<close> have sent its request, and let the reply be a
  failure: the fetch rejects, or the status is not a success (HTTP 500, say), or the
  body does not parse. Then the second segment writes the assistant message
  \<open>Error: Failed to get answer.\<close>: in research mode into the slot after the user
  message, which holds the pending placeholder, without changing the length of the
  transcript; otherwise at the end of the transcript. It clears the flag and returns,
  so no other request is sent. Nothing else of the state changes; in ChatWindow
  \<open>toolUsed\<close> is what it was before the call. (The page has no such cell.)
\<close>

theorem failed_exchange:
  "(sendMessage useR s = Awaiting q k s1 \<and> failed r \<longrightarrow>
      sendMessage_resume k r s1 =
        Returned (s1\<lparr>messages :=
                       (if useR
                        then (messages s1)[length (messages s) + 1 :=
                                             Some (assistant_msg errMsg)]
                        else messages s1 @ [Some (assistant_msg errMsg)]),
                     isTyping := False\<rparr>) \<and>
      (useR \<longrightarrow> length (messages s) + 1 < length (messages s1) \<and>
               messages s1 ! (length (messages s) + 1) = Some placeholder_msg)) \<and>
   (ChatWindow_sendMessage props useR' w = Awaiting q' k' w1 \<and> failed r' \<longrightarrow>
      ChatWindow_sendMessage_resume k' r' w1 =
        Returned (w1\<lparr>w_messages :=
                       (if useR'
                        then (w_messages w1)[length (w_messages w) + 1 :=
                                               Some (assistant_msg errMsg)]
                        else w_messages w1 @ [Some (assistant_msg errMsg)]),
                     w_isLoading := False\<rparr>) \<and>
      (useR' \<longrightarrow> length (w_messages w) + 1 < length (w_messages w1) \<and>
                w_messages w1 ! (length (w_messages w) + 1) = Some placeholder_msg) \<and>
      toolUsed w1 = toolUsed w) \<and>
   content (assistant_msg errMsg) = js ''Error: Failed to get answer.'' \<and>
   sender (assistant_msg errMsg) = Assistant \<and> \<not> pending (assistant_msg errMsg)"
proof -
  have "content (assistant_msg errMsg) = js ''Error: Failed to get answer.'' \<and>
      sender (assistant_msg errMsg) = Assistant \<and> \<not> pending (assistant_msg errMsg)"
    by (simp add: assistant_msg_def errMsg_def pending_def)
  then show ?thesis
    using failed_page_exchange [of useR s q k s1 r]
      failed_window_exchange [of props useR' w q' k' w1 r']
    by blast
qed

theorem failed_exchange_witness:
  "sendMessage False (page_with_session (js ''What color are cats?'')) =
     Awaiting
       \<lparr>question = js ''What color are cats?'', session_id = js ''s1'',
        req_personality = js ''factual'', research = False\<rparr>
       \<lparr>useResearch = False, placeholderIndex = None\<rparr>
       ((page_with_session [])
          \<lparr>messages := [Some (user_msg (js ''What color are cats?''))], isTyping := True\<rparr>) \<and>
   failed (reply_500 :: chat_data reply) \<and>
   sendMessage_resume \<lparr>useResearch = False, placeholderIndex = None\<rparr> reply_500
       ((page_with_session [])
          \<lparr>messages := [Some (user_msg (js ''What color are cats?''))], isTyping := True\<rparr>) =
     Returned
       ((page_with_session [])
          \<lparr>messages := [Some (user_msg (js ''What color are cats?'')),
                        Some (assistant_msg (js ''Error: Failed to get answer.''))]\<rparr>) \<and>
   ChatWindow_sendMessage window_props True (window_with_input (js ''Find recent cat studies'')) =
     Awaiting
       \<lparr>question = js ''Find recent cat studies'', session_id = js ''s1'',
        req_personality = js ''factual'', research = True\<rparr>
       \<lparr>useResearch = True, placeholderIndex = Some 1\<rparr>
       (ChatWindow_init
          \<lparr>w_messages := [Some (user_msg (js ''Find recent cat studies'')), Some placeholder_msg],
           w_isLoading := True\<rparr>) \<and>
   failed (Rejected :: chat_data reply) \<and>
   ChatWindow_sendMessage_resume \<lparr>useResearch = True, placeholderIndex = Some 1\<rparr> Rejected
       (ChatWindow_init
          \<lparr>w_messages := [Some (user_msg (js ''Find recent cat studies'')), Some placeholder_msg],
           w_isLoading := True\<rparr>) =
     Returned
       (ChatWindow_init
          \<lparr>w_messages := [Some (user_msg (js ''Find recent cat studies'')),
                          Some (assistant_msg (js ''Error: Failed to get answer.''))]\<rparr>)"
proof -
  have a: "sendMessage False (page_with_session (js ''What color are cats?'')) =
     Awaiting
       \<lparr>question = js ''What color are cats?'', session_id = js ''s1'',
        req_personality = js ''factual'', research = False\<rparr>
       \<lparr>useResearch = False, placeholderIndex = None\<rparr>
       ((page_with_session [])
          \<lparr>messages := [Some (user_msg (js ''What color are cats?''))], isTyping := True\<rparr>)"
    by (simp add: sendMessage_def page_with_session_def Chat_init_def trim_colors Let_def)
  have b: "ChatWindow_sendMessage window_props True (window_with_input (js ''Find recent cat studies'')) =
     Awaiting
       \<lparr>question = js ''Find recent cat studies'', session_id = js ''s1'',
        req_personality = js ''factual'', research = True\<rparr>
       \<lparr>useResearch = True, placeholderIndex = Some 1\<rparr>
       (ChatWindow_init
          \<lparr>w_messages := [Some (user_msg (js ''Find recent cat studies'')), Some placeholder_msg],
           w_isLoading := True\<rparr>)"
    by (simp add: ChatWindow_sendMessage_def window_with_input_def window_props_def
        ChatWindow_init_def trim_studies Let_def)
  have c: "failed (reply_500 :: chat_data reply)" "failed (Rejected :: chat_data reply)"
    by (simp_all add: failed_def reply_500_def response_ok_def)
  from a b c failed_exchange [of False "page_with_session (js ''What color are cats?'')"
      _ _ _ reply_500 window_props True "window_with_input (js ''Find recent cat studies'')"
      _ _ _ Rejected]
  show ?thesis
    by (simp add: page_with_session_def Chat_init_def ChatWindow_init_def
        window_with_input_def errMsg_def)
qed

subsection \<open>The advisory flag\<close>

text \<open>
  The claim C4 as stated, that a successful reply with any tool list that is not empty
  sets the flag, fails: ChatWindow tests the list for the one name \<open>Bing Search\<close>.
  Here a research exchange ends with the answer in the transcript, the reply names the
  tool \<open>Wikipedia\<close>, and \<open>toolUsed\<close> is still null. (The page chat.tsx has no cell
  for the flag and never reads \<open>tools_used\<close>.)
\<close>

theorem other_tool_counterexample:
  "response_ok 200 \<and> [js ''Wikipedia''] \<noteq> [] \<and>
   ChatWindow_sendMessage_resume \<lparr>useResearch = True, placeholderIndex = Some 1\<rparr>
       (Response 200 [] (Some (ChatData (Some (js ''Study X found...'')) (Some [js ''Wikipedia'']))))
       \<lparr>w_messages = [Some (user_msg (js ''Find recent cat studies'')), Some placeholder_msg],
        w_input = [], w_isLoading = True, toolUsed = None\<rparr> =
     Returned
       \<lparr>w_messages = [Some (user_msg (js ''Find recent cat studies'')),
                      Some (assistant_msg (js ''Study X found...''))],
        w_input = [], w_isLoading = False, toolUsed = None\<rparr>"
  by (simp add: ChatWindow_resume_ok response_ok_def reconcile_placeholder array_set_def
      answer_or_default_def)

text \<open>
  C4, amended. In ChatWindow, a successful reply whose \<open>tools_used\<close> list contains
  \<open>Bing Search\<close> sets \<open>toolUsed\<close> to the banner text. The transcript it leaves is
  the one a reply with the same answer and no \<open>tools_used\<close> leaves: the flag adds no
  message. For every other \<open>tools_used\<close> (missing, empty, or without that name)
  \<open>toolUsed\<close> keeps its value.
\<close>

theorem bing_sets_flag:
  assumes "response_ok st"
  shows
   "((js ''Bing Search'') \<in> set tools \<longrightarrow>
       ChatWindow_sendMessage_resume k (Response st txt (Some (ChatData a (Some tools)))) w =
         Returned (w\<lparr>w_messages := reconcile k (answer_or_default a) (w_messages w),
                     toolUsed := Some (js ''Invoking research tool...''),
                     w_isLoading := False\<rparr>)) \<and>
    ((js ''Bing Search'') \<notin> set tools \<longrightarrow>
       ChatWindow_sendMessage_resume k (Response st txt (Some (ChatData a (Some tools)))) w =
         Returned (w\<lparr>w_messages := reconcile k (answer_or_default a) (w_messages w),
                     w_isLoading := False\<rparr>)) \<and>
    ChatWindow_sendMessage_resume k (Response st txt (Some (ChatData a None))) w =
      Returned (w\<lparr>w_messages := reconcile k (answer_or_default a) (w_messages w),
                  w_isLoading := False\<rparr>)"
  using assms by (simp add: ChatWindow_resume_ok tool_banner_def)

theorem bing_sets_flag_witness:
  "response_ok 200 \<and> (js ''Bing Search'') \<in> set [js ''Bing Search''] \<and>
   ChatWindow_sendMessage_resume \<lparr>useResearch = True, placeholderIndex = Some 1\<rparr>
       reply_study
       (ChatWindow_init
          \<lparr>w_messages := [Some (user_msg (js ''Find recent cat studies'')), Some placeholder_msg],
           w_isLoading := True\<rparr>) =
     Returned
       (ChatWindow_init
          \<lparr>w_messages := [Some (user_msg (js ''Find recent cat studies'')),
                          Some (assistant_msg (js ''Study X found...''))],
           toolUsed := Some (js ''Invoking research tool...'')\<rparr>)"
  using bing_sets_flag [of 200 "[js ''Bing Search'']"
      "\<lparr>useResearch = True, placeholderIndex = Some 1\<rparr>" "[]" "Some (js ''Study X found...'')"
      "ChatWindow_init
          \<lparr>w_messages := [Some (user_msg (js ''Find recent cat studies'')), Some placeholder_msg],
           w_isLoading := True\<rparr>"]
  by (simp add: response_ok_def reply_study_def reconcile_placeholder array_set_def
      answer_or_default_def ChatWindow_init_def)

subsection \<open>A failed upload\<close>

lemma handleUpload_resume_failed:
  "failed r \<Longrightarrow>
   handleUpload_resume r s =
     Returned (s\<lparr>messages := messages s @ [Some (assistant_msg upload_errMsg)],
                 uploading := False\<rparr>)"
  by (auto simp: failed_def handleUpload_resume_def handleUpload_try_def handleUpload_catch_def
      split: reply.splits option.splits)

lemma DocumentUploader_resume_failed:
  "failed r \<Longrightarrow>
   DocumentUploader_handleUpload_resume onUpload r (u, p) =
     Returned (u\<lparr>u_uploading := False\<rparr>, p)"
  by (auto simp: failed_def DocumentUploader_handleUpload_resume_def DocumentUploader_try_def
      split: reply.splits option.splits)

text \<open>
  The claim C7 as stated, that every failed upload appends one error message to the
  transcript, fails for DocumentUploader: its \<open>catch\<close> block only logs. With a parent
  that keeps a transcript, an upload answered by HTTP 500 leaves that transcript
  empty; the parent is not called at all.
\<close>

theorem uploader_silent_counterexample:
  "failed (reply_500 :: UploadResult reply) \<and>
   DocumentUploader_handleUpload (uploader_busy\<lparr>u_uploading := False\<rparr>) =
     Awaiting (js ''cats.pdf'') () uploader_busy \<and>
   DocumentUploader_handleUpload_resume store_result reply_500 (uploader_busy, parent_init) =
     Returned (uploader_busy\<lparr>u_uploading := False\<rparr>, parent_init) \<and>
   parent_messages parent_init = []"
  by (simp add: DocumentUploader_resume_failed DocumentUploader_handleUpload_def
      uploader_busy_def parent_init_def failed_def reply_500_def response_ok_def)

text \<open>
  C7, amended. A failed upload (the fetch rejects, the status is not a success, or the
  body does not parse) creates no session. On the page, \<open>handleUpload\<close> with a file
  chosen sets \<open>uploading\<close> and sends the file; when the failure arrives, in whatever
  state, it appends exactly one assistant message,
  \<open>Error: Failed to summarize document.\<close>, clears \<open>uploading\<close> and changes nothing
  else: \<open>sessionId\<close> and \<open>summary\<close> are what they were. DocumentUploader clears its
  \<open>uploading\<close> and does not call \<open>onUpload\<close>: its parent's state is what it was.
\<close>

theorem failed_upload:
  assumes "failed r"
  shows
   "(file' s = Some f \<longrightarrow> handleUpload s = Awaiting f () (s\<lparr>uploading := True\<rparr>)) \<and>
    handleUpload_resume r s2 =
      Returned (s2\<lparr>messages := messages s2 @ [Some (assistant_msg upload_errMsg)],
                   uploading := False\<rparr>) \<and>
    sender (assistant_msg upload_errMsg) = Assistant \<and>
    content (assistant_msg upload_errMsg) = js ''Error: Failed to summarize document.'' \<and>
    \<not> pending (assistant_msg upload_errMsg) \<and>
    DocumentUploader_handleUpload_resume onUpload r (u, p) =
      Returned (u\<lparr>u_uploading := False\<rparr>, p)"
  using assms
  by (simp add: handleUpload_resume_failed DocumentUploader_resume_failed handleUpload_def
      assistant_msg_def upload_errMsg_def pending_def)

theorem failed_upload_witness:
  "failed (reply_500 :: UploadResult reply) \<and>
   file' (Chat_init\<lparr>file' := Some (js ''cats.pdf'')\<rparr>) = Some (js ''cats.pdf'') \<and>
   handleUpload (Chat_init\<lparr>file' := Some (js ''cats.pdf'')\<rparr>) =
     Awaiting (js ''cats.pdf'') () (Chat_init\<lparr>file' := Some (js ''cats.pdf''), uploading := True\<rparr>) \<and>
   handleUpload_resume reply_500 (Chat_init\<lparr>file' := Some (js ''cats.pdf''), uploading := True\<rparr>) =
     Returned
       (Chat_init\<lparr>file' := Some (js ''cats.pdf''),
          messages := [Some (assistant_msg (js ''Error: Failed to summarize document.''))]\<rparr>) \<and>
   sessionId (Chat_init\<lparr>file' := Some (js ''cats.pdf''),
          messages := [Some (assistant_msg (js ''Error: Failed to summarize document.''))]\<rparr>) = None \<and>
   DocumentUploader_handleUpload_resume store_result reply_500 (uploader_busy, parent_init) =
     Returned (uploader_busy\<lparr>u_uploading := False\<rparr>, parent_init)"
proof -
  have f: "failed (reply_500 :: UploadResult reply)"
    by (simp add: failed_def reply_500_def response_ok_def)
  from failed_upload [OF f, of "Chat_init\<lparr>file' := Some (js ''cats.pdf'')\<rparr>" "(js ''cats.pdf'')"
      "Chat_init\<lparr>file' := Some (js ''cats.pdf''), uploading := True\<rparr>"
      store_result uploader_busy parent_init] f
  show ?thesis
    by (simp add: Chat_init_def upload_errMsg_def)
qed

subsection \<open>What every situation of the page satisfies\<close>

lemma slot_kept_refl: "slot_kept a a"
  by (simp add: slot_kept_def)

lemma slot_kept_trans:
  assumes "slot_kept a b" and "slot_kept b c"
  shows "slot_kept a c"
proof (cases "b = a")
  case True
  with assms(2) show ?thesis by simp
next
  case False
  with assms(1) obtain m where a: "a = Some placeholder_msg"
    and b: "b = Some m" "sender m = Assistant" "\<not> pending m"
    by (auto simp: slot_kept_def split: option.splits)
  from b have "b \<noteq> Some placeholder_msg"
    by (auto simp: placeholder_msg_def pending_def)
  with assms(2) have "c = b"
    by (simp add: slot_kept_def)
  with a b show ?thesis
    by (simp add: slot_kept_def)
qed

lemma transcript_kept_iff:
  "transcript_kept old new \<longleftrightarrow>
     length old \<le> length new \<and> (\<forall>i<length old. slot_kept (old ! i) (new ! i))"
  by (auto simp: transcript_kept_def list_all2_conv_all_nth)

lemma transcript_kept_refl: "transcript_kept ms ms"
  by (simp add: transcript_kept_iff slot_kept_refl)

lemma transcript_kept_trans:
  assumes "transcript_kept a b" and "transcript_kept b c"
  shows "transcript_kept a c"
  unfolding transcript_kept_iff
proof (intro conjI allI impI)
  from assms show "length a \<le> length c"
    by (simp add: transcript_kept_iff)
next
  fix i assume i: "i < length a"
  with assms(1) have ab: "slot_kept (a ! i) (b ! i)" and "i < length b"
    by (simp_all add: transcript_kept_iff)
  with assms(2) have "slot_kept (b ! i) (c ! i)"
    by (simp add: transcript_kept_iff)
  with ab show "slot_kept (a ! i) (c ! i)"
    by (rule slot_kept_trans)
qed

lemma transcript_kept_append: "transcript_kept ms (ms @ xs)"
  by (simp add: transcript_kept_iff nth_append slot_kept_refl)

lemma transcript_kept_overwrite:
  assumes "i < length ms" and "ms ! i = Some placeholder_msg"
  shows "transcript_kept ms (ms[i := Some (assistant_msg t)])"
  using assms
  by (auto simp: transcript_kept_iff nth_list_update slot_kept_def assistant_msg_def pending_def)

lemma reconcile_cases:
  "reconcile k t ms = ms @ [Some (assistant_msg t)] \<or>
   (\<exists>i. useResearch k \<and> placeholderIndex k = Some i \<and>
        reconcile k t ms = array_set ms i (assistant_msg t))"
  by (auto simp: reconcile_def split: option.splits bool.splits)

lemma reconcile_kept:
  assumes "locals_ok ms k"
  shows "transcript_kept ms (reconcile k t ms)"
proof -
  from reconcile_cases [of k t ms] show ?thesis
  proof
    assume "reconcile k t ms = ms @ [Some (assistant_msg t)]"
    then show ?thesis by (simp add: transcript_kept_append)
  next
    assume "\<exists>i. useResearch k \<and> placeholderIndex k = Some i \<and>
        reconcile k t ms = array_set ms i (assistant_msg t)"
    then obtain i where i: "useResearch k" "placeholderIndex k = Some i"
      and r: "reconcile k t ms = array_set ms i (assistant_msg t)"
      by blast
    from i assms have "i < length ms" "ms ! i = Some placeholder_msg"
      by (simp_all add: locals_ok_def)
    with r show ?thesis
      by (simp add: array_set_inside transcript_kept_overwrite)
  qed
qed

lemma reconcile_no_empty_slot:
  assumes "locals_ok ms k" and "None \<notin> set ms"
  shows "None \<notin> set (reconcile k t ms)"
proof -
  from reconcile_cases [of k t ms] show ?thesis
  proof
    assume "reconcile k t ms = ms @ [Some (assistant_msg t)]"
    with assms(2) show ?thesis by simp
  next
    assume "\<exists>i. useResearch k \<and> placeholderIndex k = Some i \<and>
        reconcile k t ms = array_set ms i (assistant_msg t)"
    then obtain i where i: "useResearch k" "placeholderIndex k = Some i"
      and r: "reconcile k t ms = array_set ms i (assistant_msg t)"
      by blast
    from i assms(1) have "i < length ms"
      by (simp add: locals_ok_def)
    with r have "set (reconcile k t ms) \<subseteq> insert (Some (assistant_msg t)) (set ms)"
      by (simp add: array_set_inside set_update_subset_insert)
    with assms(2) show ?thesis by auto
  qed
qed

lemma locals_ok_append: "locals_ok ms k \<Longrightarrow> locals_ok (ms @ xs) k"
  by (auto simp: locals_ok_def nth_append split: option.splits bool.splits)

lemma sendMessage_resume_shape:
  "\<exists>t. sendMessage_resume k r s =
     Returned (s\<lparr>messages := reconcile k t (messages s), isTyping := False\<rparr>)"
  by (cases "failed r")
    (auto simp: sendMessage_resume_failed failed_def sendMessage_resume_ok split: reply.splits)

lemma handleUpload_resume_shape:
  "\<exists>s'. handleUpload_resume r s = Returned s' \<and> isTyping s' = isTyping s \<and>
     (messages s' = messages s \<or>
      messages s' = messages s @ [Some (assistant_msg upload_errMsg)])"
  by (cases "failed r")
    (auto simp: handleUpload_resume_failed failed_def handleUpload_resume_def
      handleUpload_try_def handleUpload_catch_def split: reply.splits)

lemma Chat_inv_iff:
  "Chat_inv s \<longleftrightarrow>
     None \<notin> set (messages (ui s)) \<and>
     (chat_inflight s = [] \<or>
      (\<exists>k. chat_inflight s = [k] \<and> isTyping (ui s) \<and> locals_ok (messages (ui s)) k))"
  by (auto simp: Chat_inv_def split: list.splits)

lemma Chat_inv_init: "Chat_inv Chat_sys_init"
  by (simp add: Chat_inv_iff Chat_sys_init_def Chat_init_def)

lemma Chat_inv_Send:
  assumes "Chat_inv s"
  shows "Chat_inv (Chat_step (Send useR) s) \<and>
         transcript_kept (messages (ui s)) (messages (ui (Chat_step (Send useR) s)))"
proof (cases "\<exists>q k u. sendMessage useR (ui s) = Awaiting q k u")
  case True
  then obtain q k u where a: "sendMessage useR (ui s) = Awaiting q k u"
    by blast
  from a sendMessage_Awaiting_iff [of useR "ui s"] have "\<not> isTyping (ui s)"
    by blast
  with assms have idle: "chat_inflight s = []" and full: "None \<notin> set (messages (ui s))"
    by (auto simp: Chat_inv_iff)
  note parts = sendMessage_Awaiting_parts [OF a]
  from parts have "locals_ok (messages u) k"
    by (cases useR) (simp_all add: locals_ok_def nth_append)
  moreover from parts full have "None \<notin> set (messages u)"
    by (cases useR) simp_all
  moreover from parts have "isTyping u"
    by simp
  moreover from parts have "transcript_kept (messages (ui s)) (messages u)"
    by (simp add: transcript_kept_append)
  ultimately show ?thesis
    using a idle by (simp add: Chat_inv_iff)
next
  case False
  then obtain u where r: "sendMessage useR (ui s) = Returned u"
    by (cases "sendMessage useR (ui s)") auto
  then have u: "u = ui s \<or> u = (ui s)\<lparr>messages := messages (ui s) @ [Some guidance_msg]\<rparr>"
    by (auto simp: sendMessage_def Let_def split: if_splits option.splits)
  from u show ?thesis
  proof
    assume "u = ui s"
    with r assms show ?thesis
      by (simp add: Chat_inv_iff transcript_kept_refl)
  next
    assume "u = (ui s)\<lparr>messages := messages (ui s) @ [Some guidance_msg]\<rparr>"
    with r assms show ?thesis
      by (auto simp: Chat_inv_iff transcript_kept_append locals_ok_append)
  qed
qed

lemma Chat_inv_ChatSettled:
  assumes "Chat_inv s"
  shows "Chat_inv (Chat_step (ChatSettled n r) s) \<and>
         transcript_kept (messages (ui s)) (messages (ui (Chat_step (ChatSettled n r) s)))"
proof (cases "n < length (chat_inflight s)")
  case False
  with assms show ?thesis
    by (simp add: transcript_kept_refl)
next
  case True
  with assms obtain k where k: "chat_inflight s = [k]" "n = 0"
    and ok: "locals_ok (messages (ui s)) k" and full: "None \<notin> set (messages (ui s))"
    by (auto simp: Chat_inv_iff)
  from sendMessage_resume_shape [of k r "ui s"] obtain t where
    t: "sendMessage_resume k r (ui s) =
          Returned ((ui s)\<lparr>messages := reconcile k t (messages (ui s)), isTyping := False\<rparr>)"
    by blast
  from k t have "Chat_step (ChatSettled n r) s =
      s\<lparr>ui := (ui s)\<lparr>messages := reconcile k t (messages (ui s)), isTyping := False\<rparr>,
        chat_inflight := []\<rparr>"
    by (simp add: drop_nth_def)
  with ok full show ?thesis
    by (simp add: Chat_inv_iff reconcile_kept reconcile_no_empty_slot)
qed

lemma Chat_inv_UploadSettled:
  assumes "Chat_inv s"
  shows "Chat_inv (Chat_step (UploadSettled r) s) \<and>
         transcript_kept (messages (ui s)) (messages (ui (Chat_step (UploadSettled r) s)))"
proof (cases "uploads_inflight s = 0")
  case True
  with assms show ?thesis
    by (simp add: transcript_kept_refl)
next
  case False
  from handleUpload_resume_shape [of r "ui s"] obtain u where
    u: "handleUpload_resume r (ui s) = Returned u" "isTyping u = isTyping (ui s)"
      "messages u = messages (ui s) \<or>
       messages u = messages (ui s) @ [Some (assistant_msg upload_errMsg)]"
    by blast
  from u(3) show ?thesis
  proof
    assume "messages u = messages (ui s)"
    with u(1,2) False assms show ?thesis
      by (auto simp: Chat_inv_iff transcript_kept_refl)
  next
    assume "messages u = messages (ui s) @ [Some (assistant_msg upload_errMsg)]"
    with u(1,2) False assms show ?thesis
      by (auto simp: Chat_inv_iff transcript_kept_append locals_ok_append)
  qed
qed

lemma Chat_step_inv:
  assumes "Chat_inv s"
  shows "Chat_inv (Chat_step e s) \<and>
         transcript_kept (messages (ui s)) (messages (ui (Chat_step e s)))"
proof (cases e)
  case (ChangeInput v)
  with assms show ?thesis
    by (simp add: Chat_inv_iff transcript_kept_refl)
next
  case (ChangePersonality v)
  with assms show ?thesis
    by (simp add: Chat_inv_iff transcript_kept_refl handlePersonalityChange_def)
next
  case (ChangeFile fs)
  with assms show ?thesis
    by (simp add: Chat_inv_iff transcript_kept_refl handleFileChange_def split: list.splits)
next
  case ClickUpload
  with assms show ?thesis
    by (simp add: Chat_inv_iff transcript_kept_refl handleUpload_def split: option.splits)
next
  case (UploadSettled r)
  from Chat_inv_UploadSettled [OF assms, of r] show ?thesis
    unfolding UploadSettled .
next
  case (Send useR)
  from Chat_inv_Send [OF assms, of useR] show ?thesis
    unfolding Send .
next
  case (ChatSettled n r)
  from Chat_inv_ChatSettled [OF assms, of n r] show ?thesis
    unfolding ChatSettled .
qed

lemma Chat_run_inv:
  "Chat_inv s \<Longrightarrow>
   Chat_inv (Chat_run es s) \<and>
   transcript_kept (messages (ui s)) (messages (ui (Chat_run es s)))"
proof (induction es arbitrary: s)
  case Nil
  then show ?case
    by (simp add: Chat_run_def transcript_kept_refl)
next
  case (Cons e es)
  from Chat_step_inv [OF Cons.prems, of e]
  have 1: "Chat_inv (Chat_step e s)"
    and 2: "transcript_kept (messages (ui s)) (messages (ui (Chat_step e s)))"
    by simp_all
  from Cons.IH [OF 1] 2 show ?case
    by (auto simp: Chat_run_def intro: transcript_kept_trans)
qed

lemma ui_Send: "ui (Chat_step (Send useR) s) = state_of (sendMessage useR (ui s))"
  by (simp split: outcome.splits)

lemma sendMessage_appends:
  "\<exists>xs. messages (state_of (sendMessage useR u)) = messages u @ xs"
  by (auto simp: sendMessage_def Let_def split: option.splits)

lemma Chat_step_shape:
  assumes "Chat_inv s"
  shows "(\<exists>xs. messages (ui (Chat_step e s)) = messages (ui s) @ xs) \<or>
         (\<exists>n x. n < length (messages (ui s)) \<and>
                messages (ui s) ! n = Some placeholder_msg \<and>
                messages (ui (Chat_step e s)) = (messages (ui s))[n := Some (assistant_msg x)])"
proof (cases e)
  case (ChangeInput v)
  then show ?thesis by simp
next
  case (ChangePersonality v)
  then show ?thesis by (simp add: handlePersonalityChange_def)
next
  case (ChangeFile fs)
  then show ?thesis by (simp add: handleFileChange_def split: list.splits)
next
  case ClickUpload
  then show ?thesis by (simp add: handleUpload_def split: option.splits)
next
  case (UploadSettled r)
  from handleUpload_resume_shape [of r "ui s"] obtain u where
    "handleUpload_resume r (ui s) = Returned u"
    "messages u = messages (ui s) \<or>
     messages u = messages (ui s) @ [Some (assistant_msg upload_errMsg)]"
    by blast
  with UploadSettled show ?thesis
    by (cases "uploads_inflight s = 0") auto
next
  case (Send useR)
  with sendMessage_appends [of useR "ui s"] show ?thesis
    by (simp only: ui_Send) blast
next
  case (ChatSettled n r)
  show ?thesis
  proof (cases "n < length (chat_inflight s)")
    case False
    with ChatSettled show ?thesis by simp
  next
    case True
    with assms obtain k where k: "chat_inflight s = [k]" "n = 0"
      and ok: "locals_ok (messages (ui s)) k"
      by (auto simp: Chat_inv_iff)
    from sendMessage_resume_shape [of k r "ui s"] obtain t where
      "sendMessage_resume k r (ui s) =
          Returned ((ui s)\<lparr>messages := reconcile k t (messages (ui s)), isTyping := False\<rparr>)"
      by blast
    with k ChatSettled
    have m: "messages (ui (Chat_step e s)) = reconcile k t (messages (ui s))"
      by simp
    from reconcile_cases [of k t "messages (ui s)"] show ?thesis
    proof
      assume "reconcile k t (messages (ui s)) = messages (ui s) @ [Some (assistant_msg t)]"
      with m show ?thesis by simp
    next
      assume "\<exists>i. useResearch k \<and> placeholderIndex k = Some i \<and>
        reconcile k t (messages (ui s)) = array_set (messages (ui s)) i (assistant_msg t)"
      then obtain i where i: "useResearch k" "placeholderIndex k = Some i"
        and r: "reconcile k t (messages (ui s)) = array_set (messages (ui s)) i (assistant_msg t)"
        by blast
      from i ok have "i < length (messages (ui s))" "messages (ui s) ! i = Some placeholder_msg"
        by (simp_all add: locals_ok_def)
      with r m show ?thesis
        by (auto simp: array_set_inside)
    qed
  qed
qed

subsection \<open>Order of the transcript\<close>

text \<open>
  C8. Take any run of the page from its initial state, reaching \<open>s\<close>, and any
  continuation of it, reaching \<open>t\<close>. Two messages of \<open>s\<close>, at the indices
  \<open>i < j\<close> (so the first was appended before the second), are at the same indices
  in \<open>t\<close>: each slot holds the message it held, or, if it held the pending
  placeholder, the assistant message written over it. So the first still precedes the
  second, no slot is removed, and none is empty. Each single event from \<open>t\<close> either
  appends to the transcript (possibly nothing) or overwrites, in place, a slot that
  holds the pending placeholder.
\<close>

theorem transcript_order:
  assumes "s = Chat_run es1 Chat_sys_init" and "t = Chat_run es2 s"
    and "i < j" and "j < length (messages (ui s))"
  shows "j < length (messages (ui t)) \<and>
         slot_kept (messages (ui s) ! i) (messages (ui t) ! i) \<and>
         slot_kept (messages (ui s) ! j) (messages (ui t) ! j) \<and>
         transcript_kept (messages (ui s)) (messages (ui t)) \<and>
         None \<notin> set (messages (ui t)) \<and>
         ((\<exists>xs. messages (ui (Chat_step e t)) = messages (ui t) @ xs) \<or>
          (\<exists>n x. n < length (messages (ui t)) \<and>
                 messages (ui t) ! n = Some placeholder_msg \<and>
                 messages (ui (Chat_step e t)) = (messages (ui t))[n := Some (assistant_msg x)]))"
proof -
  from assms(1) Chat_run_inv [OF Chat_inv_init, of es1] have s: "Chat_inv s"
    by simp
  from assms(2) Chat_run_inv [OF s, of es2]
  have t: "Chat_inv t" and kept: "transcript_kept (messages (ui s)) (messages (ui t))"
    by simp_all
  from kept assms(3,4) have "j < length (messages (ui t))"
    and "slot_kept (messages (ui s) ! i) (messages (ui t) ! i)"
    and "slot_kept (messages (ui s) ! j) (messages (ui t) ! j)"
    by (simp_all add: transcript_kept_iff)
  moreover from t have "None \<notin> set (messages (ui t))"
    by (simp add: Chat_inv_iff)
  ultimately show ?thesis
    using kept Chat_step_shape [OF t, of e] by blast
qed

lemma page_asking_run:
  "Chat_run page_asking Chat_sys_init =
     \<lparr>ui = \<lparr>personality = js ''factual'', sessionId = Some (js ''s1''), summary = js ''doc about cats'',
            messages = [Some (user_msg (js ''Find recent cat studies'')), Some placeholder_msg],
            input = [], isTyping = True, uploading = False, file' = Some (js ''cats.pdf'')\<rparr>,
      chat_inflight = [\<lparr>useResearch = True, placeholderIndex = Some 1\<rparr>],
      uploads_inflight = 0\<rparr>"
  by (simp add: Chat_run_def page_asking_def Chat_sys_init_def Chat_init_def
      handleFileChange_def handleUpload_def handleUpload_resume_def handleUpload_try_def
      reply_upload_def response_ok_def sendMessage_def trim_studies Let_def)

theorem transcript_order_witness:
  "(0::nat) < 1 \<and>
   1 < length (messages (ui (Chat_run page_asking Chat_sys_init))) \<and>
   messages (ui (Chat_run page_asking Chat_sys_init)) ! 1 = Some placeholder_msg \<and>
   messages (ui (Chat_run [ChatSettled 0 reply_study] (Chat_run page_asking Chat_sys_init))) ! 1
     = Some (assistant_msg (js ''Study X found...'')) \<and>
   slot_kept (messages (ui (Chat_run page_asking Chat_sys_init)) ! 0)
     (messages (ui (Chat_run [ChatSettled 0 reply_study]
        (Chat_run page_asking Chat_sys_init))) ! 0) \<and>
   slot_kept (messages (ui (Chat_run page_asking Chat_sys_init)) ! 1)
     (messages (ui (Chat_run [ChatSettled 0 reply_study]
        (Chat_run page_asking Chat_sys_init))) ! 1)"
proof -
  have len: "1 < length (messages (ui (Chat_run page_asking Chat_sys_init)))"
    by (simp add: page_asking_run)
  have after: "messages (ui (Chat_run [ChatSettled 0 reply_study]
        (Chat_run page_asking Chat_sys_init))) ! 1 = Some (assistant_msg (js ''Study X found...''))"
    unfolding page_asking_run
    by (simp add: Chat_run_def reply_study_def sendMessage_resume_ok
        response_ok_def reconcile_placeholder array_set_def answer_or_default_def
        drop_nth_def)
  from transcript_order [OF refl refl _ len, of 0 "[ChatSettled 0 reply_study]"] len after
  show ?thesis
    by (simp add: page_asking_run)
qed

subsection \<open>The banner of ChatWindow\<close>

lemma ChatWindow_send_toolUsed:
  "toolUsed (state_of (ChatWindow_sendMessage props useR w)) = toolUsed w"
  by (simp add: ChatWindow_sendMessage_def Let_def)

lemma ChatWindow_resume_toolUsed:
  assumes "toolUsed w = Some tool_banner"
  shows "toolUsed (state_of (ChatWindow_sendMessage_resume k r w)) = Some tool_banner"
proof (cases "failed r")
  case True
  with assms show ?thesis
    by (simp add: ChatWindow_resume_failed)
next
  case False
  then obtain st body d where "r = Response st body (Some d)" "response_ok st"
    by (auto simp: failed_def split: reply.splits)
  with assms show ?thesis
    by (simp add: ChatWindow_resume_ok split: option.splits)
qed

lemma w_ui_Send:
  "w_ui (ChatWindow_step props (W_Send useR) s) =
     state_of (ChatWindow_sendMessage props useR (w_ui s))"
  by (simp split: outcome.splits)

lemma w_ui_ChatSettled:
  "n < length (w_inflight s) \<Longrightarrow>
   w_ui (ChatWindow_step props (W_ChatSettled n r) s) =
     state_of (ChatWindow_sendMessage_resume (w_inflight s ! n) r (w_ui s))"
  by (simp split: outcome.splits)

lemma ChatWindow_step_toolUsed:
  assumes "toolUsed (w_ui s) = Some tool_banner"
  shows "toolUsed (w_ui (ChatWindow_step props e s)) = Some tool_banner"
proof (cases e)
  case (W_ChangeInput v)
  with assms show ?thesis by simp
next
  case (W_Send useR)
  with assms show ?thesis
    by (simp only: w_ui_Send ChatWindow_send_toolUsed)
next
  case (W_ChatSettled n r)
  show ?thesis
  proof (cases "n < length (w_inflight s)")
    case True
    with W_ChatSettled assms show ?thesis
      by (simp only: w_ui_ChatSettled ChatWindow_resume_toolUsed)
  next
    case False
    with W_ChatSettled assms show ?thesis by simp
  qed
qed

lemma ChatWindow_run_toolUsed:
  "toolUsed (w_ui s) = Some tool_banner \<Longrightarrow>
   toolUsed (w_ui (ChatWindow_run props es s)) = Some tool_banner"
proof (induction es arbitrary: s)
  case Nil
  then show ?case by (simp add: ChatWindow_run_def)
next
  case (Cons e es)
  from Cons.IH [OF ChatWindow_step_toolUsed [OF Cons.prems, of props e]]
  show ?case by (simp add: ChatWindow_run_def)
qed

text \<open>
  C10. Let a reply to a call in flight be a success whose \<open>tools_used\<close> contains
  \<open>Bing Search\<close>. The second segment sets \<open>toolUsed\<close> to the banner text, and
  after any sequence of further events (typing, questions with or without research,
  replies of any kind, failures included) \<open>toolUsed\<close> still is that text, so the
  banner is rendered: no handler of ChatWindow writes null to the cell.
\<close>

theorem banner_persists:
  assumes "n < length (w_inflight s)" and "response_ok st"
    and "(js ''Bing Search'') \<in> set tools"
    and "s' = ChatWindow_step props
                (W_ChatSettled n (Response st txt (Some (ChatData a (Some tools))))) s"
  shows "toolUsed (w_ui s') = Some (js ''Invoking research tool...'') \<and>
         toolUsed (w_ui (ChatWindow_run props es s')) = Some (js ''Invoking research tool...'') \<and>
         banner_shown (w_ui (ChatWindow_run props es s')) = Some (js ''Invoking research tool...'')"
proof -
  from assms have set: "toolUsed (w_ui s') = Some tool_banner"
    by (simp add: w_ui_ChatSettled ChatWindow_resume_ok)
  from ChatWindow_run_toolUsed [OF set, of props es] set show ?thesis
    by (simp add: banner_shown_def tool_banner_def)
qed

lemma window_asking_run:
  "ChatWindow_run window_props window_asking ChatWindow_sys_init =
     \<lparr>w_ui = \<lparr>w_messages = [Some (user_msg (js ''Find recent cat studies'')), Some placeholder_msg],
              w_input = [], w_isLoading = True, toolUsed = None\<rparr>,
      w_inflight = [\<lparr>useResearch = True, placeholderIndex = Some 1\<rparr>]\<rparr>"
  by (simp add: ChatWindow_run_def window_asking_def ChatWindow_sys_init_def
      ChatWindow_init_def ChatWindow_sendMessage_def trim_studies Let_def)

theorem banner_persists_witness:
  "0 < length (w_inflight (ChatWindow_run window_props window_asking ChatWindow_sys_init)) \<and>
   toolUsed (w_ui (ChatWindow_run window_props window_asking ChatWindow_sys_init)) = None \<and>
   response_ok 200 \<and> (js ''Bing Search'') \<in> set [js ''Bing Search''] \<and>
   toolUsed (w_ui (ChatWindow_run window_props window_later
       (ChatWindow_step window_props (W_ChatSettled 0 reply_study)
          (ChatWindow_run window_props window_asking ChatWindow_sys_init)))) =
     Some (js ''Invoking research tool...'') \<and>
   w_messages (w_ui (ChatWindow_run window_props window_later
       (ChatWindow_step window_props (W_ChatSettled 0 reply_study)
          (ChatWindow_run window_props window_asking ChatWindow_sys_init)))) =
     [Some (user_msg (js ''Find recent cat studies'')), Some (assistant_msg (js ''Study X found...'')),
      Some (user_msg (js ''What color are cats?'')),
      Some (assistant_msg (js ''Error: Failed to get answer.''))]"
proof -
  have n: "0 < length (w_inflight (ChatWindow_run window_props window_asking ChatWindow_sys_init))"
    and none: "toolUsed (w_ui (ChatWindow_run window_props window_asking ChatWindow_sys_init)) = None"
    by (simp_all add: window_asking_run)
  have ok: "response_ok 200" and bing: "(js ''Bing Search'') \<in> set [js ''Bing Search'']"
    by (simp_all add: response_ok_def)
  have msgs: "w_messages (w_ui (ChatWindow_run window_props window_later
       (ChatWindow_step window_props (W_ChatSettled 0 reply_study)
          (ChatWindow_run window_props window_asking ChatWindow_sys_init)))) =
     [Some (user_msg (js ''Find recent cat studies'')), Some (assistant_msg (js ''Study X found...'')),
      Some (user_msg (js ''What color are cats?'')),
      Some (assistant_msg (js ''Error: Failed to get answer.''))]"
    unfolding window_asking_run
    by (simp add: ChatWindow_run_def window_later_def reply_study_def reply_500_def
        ChatWindow_resume_ok ChatWindow_sendMessage_resume_def ChatWindow_sendMessage_try_def
        ChatWindow_sendMessage_catch_def ChatWindow_sendMessage_def
        response_ok_def reconcile_def array_set_def answer_or_default_def drop_nth_def
        trim_colors errMsg_def Let_def)
  from banner_persists [OF n ok bing, of _ window_props "[]" "Some (js ''Study X found...'')"
      window_later, OF refl] n none ok bing msgs
  show ?thesis
    by (simp add: reply_study_def)
qed

end
